theory Spec2Isabelle
  imports Complex_Main "HOL-Library.AList"
begin

section \<open>JavaScript values\<close>

text \<open>
  The values that cross the service boundaries (socket payloads, upstream responses) are
  JSON-like JavaScript values. Numbers are modelled as reals (finite doubles, rounding not
  modelled); strings as lists of 8-bit code units; an object as an association list whose
  first binding of a key is the property's value.
\<close>

datatype json =
    JUndefined
  | JNull
  | JBool bool
  | JNum real
  | JStr string
  | JArr "json list"
  | JObj "(string \<times> json) list"

datatype error = TypeError string | SyntaxError string | Error string

fun message :: "error \<Rightarrow> string" where
  "message (TypeError m) = m"
| "message (SyntaxError m) = m"
| "message (Error m) = m"

text \<open>Truthiness, as used by \<open>!x\<close>, \<open>x || y\<close> and \<open>x && y\<close>.\<close>

fun truthy :: "json \<Rightarrow> bool" where
  "truthy JUndefined = False"
| "truthy JNull = False"
| "truthy (JBool b) = b"
| "truthy (JNum x) = (x \<noteq> 0)"
| "truthy (JStr s) = (s \<noteq> [])"
| "truthy (JArr xs) = True"
| "truthy (JObj kvs) = True"

text \<open>\<open>a || b || ... || d\<close>: the first truthy operand, else the last one.\<close>

fun orChain :: "json list \<Rightarrow> json \<Rightarrow> json" where
  "orChain [] d = d"
| "orChain (x # xs) d = (if truthy x then x else orChain xs d)"

text \<open>The white space \<open>trim\<close> strips, among 8-bit code units: tab, line feed,
  vertical tab, form feed, carriage return, space and no-break space.\<close>

definition isWhitespace :: "char \<Rightarrow> bool" where
  "isWhitespace c = (of_char c \<in> {9, 10, 11, 12, 13, 32, 160 :: nat})"

text \<open>\<open>String.prototype.trim\<close>.\<close>

definition trim :: "string \<Rightarrow> string" where
  "trim s = rev (dropWhile isWhitespace (rev (dropWhile isWhitespace s)))"

definition toLowerCase_char :: "char \<Rightarrow> char" where
  "toLowerCase_char c =
     (let n = of_char c :: nat
      in if (65 \<le> n \<and> n \<le> 90) \<or> (192 \<le> n \<and> n \<le> 222 \<and> n \<noteq> 215)
         then char_of (n + 32) else c)"

definition toLowerCase :: "string \<Rightarrow> string" where
  "toLowerCase s = map toLowerCase_char s"

text \<open>Decimal rendering of a number inside a template literal (integers only).\<close>

definition digit :: "nat \<Rightarrow> char" where
  "digit d = ''0123456789'' ! d"

function showNat :: "nat \<Rightarrow> string" where
  "showNat n = (if n < 10 then [digit n] else showNat (n div 10) @ [digit (n mod 10)])"
  by pat_completeness auto
termination
  by (relation "measure id") auto

declare showNat.simps [simp del]

definition showInt :: "int \<Rightarrow> string" where
  "showInt i = (if i < 0 then CHR ''-'' # showNat (nat (- i)) else showNat (nat i))"

text \<open>
  Library operations whose algorithms are not part of the repository are parameters of
  the model: \<open>JSON.parse\<close> (which throws on malformed text), \<open>JSON.stringify\<close> on a
  defined value, the numeric coercion applied by \<open><\<close> and \<open>>\<close> to a non-number
  (\<open>None\<close> is \<open>NaN\<close>), and the two regular-expression replacements of the
  message sanitizer.
\<close>

record runtime =
  JSON_parse :: "string \<Rightarrow> error + json"
  JSON_stringify :: "json \<Rightarrow> string"
  ToNumber :: "json \<Rightarrow> real option"
  stripTags :: "string \<Rightarrow> string"

section \<open>Configuration (config.js)\<close>

text \<open>
  \<open>config.moderation.saferValue\<close> is \<open>null\<close> when the variable is unset; the integer
  options come from \<open>parseInt\<close>. Unparseable variables (\<open>NaN\<close>) are outside the model.
\<close>

record config =
  huggingFace_apiUrl :: string
  moderation_threshold :: real
  moderation_saferValue :: "real option"
  rateLimit_messagesPerMinute :: int
  ai_enabled :: bool
  ai_apiKey :: string
  ai_maxResponseLength :: int
  ai_conversationHistorySize :: int

section \<open>Moderation outcome (moderationService.js)\<close>

text \<open>
  The \<open>reason\<close> string of an outcome, one constructor per literal or template of the
  source; \<open>BlockedDueTo c x\<close> is \<open>Blocked due to c (score: x.toFixed(4))\<close>.
\<close>

datatype reason =
    EmptyMessage
  | API_ERROR
  | PARSE_ERROR
  | UNEXPECTED_RESPONSE
  | OK
  | BlockedModelAndSafer
  | BlockedModel
  | BlockedSafer string
  | BlockedDueTo string real

record scoreDetails =
  d_scores :: "(string \<times> real) list"
  d_maxScore :: real
  d_maxCategory :: "string option"
  d_okScore :: json
  d_threshold :: real
  d_isFlagged :: "bool option"
  d_isSaferFlagged :: "bool option"
  d_rawScores :: "json option"

datatype details =
    NoDetails
  | ApiErrorDetails string string
  | ResponseDetails json
  | JsonErrorDetails string string
  | ParseErrorDetails string "string option"
  | ScoreDetails scoreDetails

record outcome =
  isBlocked :: bool
  reason :: reason
  details :: details

text \<open>\<open>String.prototype.includes\<close>.\<close>

definition includes_str :: "string \<Rightarrow> string \<Rightarrow> bool" where
  "includes_str s sub = list_ex (\<lambda>i. take (length sub) (drop i s) = sub) [0..<Suc (length s)]"

definition isSpaceAPI :: "config \<Rightarrow> bool" where
  "isSpaceAPI cfg =
     (includes_str (huggingFace_apiUrl cfg) ''.hf.space'' \<or>
      includes_str (huggingFace_apiUrl cfg) ''duchaba/Friendly_Text_Moderation'')"

text \<open>
  The \<open>safer\<close> parameter \<open>moderateText\<close> sends to the Space endpoint:
  \<open>config.moderation.threshold || 0.5\<close> replaces a threshold of \<open>0\<close> by \<open>0.5\<close>.
\<close>

definition saferValue :: "config \<Rightarrow> real" where
  "saferValue cfg =
     (case moderation_saferValue cfg of
        Some v \<Rightarrow> max 0.005 (min 0.1 v)
      | None \<Rightarrow>
          (let threshold = (if moderation_threshold cfg = 0 then 0.5
                            else moderation_threshold cfg)
           in max 0.005 (min 0.1 (0.1 - threshold * 0.095))))"

text \<open>
  Reading properties of a value: \<open>null\<close> and \<open>undefined\<close> throw on any read, an object
  yields the bound value or \<open>undefined\<close>, any other value yields \<open>undefined\<close> for the
  keys used here.
\<close>

definition objectGet :: "(string \<times> json) list \<Rightarrow> string \<Rightarrow> json" where
  "objectGet kvs k = (case map_of kvs k of None \<Rightarrow> JUndefined | Some v \<Rightarrow> v)"

fun propertiesOf :: "json \<Rightarrow> error + (string \<Rightarrow> json)" where
  "propertiesOf JUndefined = Inl (TypeError ''Cannot read properties of undefined'')"
| "propertiesOf JNull = Inl (TypeError ''Cannot read properties of null'')"
| "propertiesOf (JObj kvs) = Inr (objectGet kvs)"
| "propertiesOf v = Inr (\<lambda>k. JUndefined)"

text \<open>The \<open>in\<close> operator, which throws on a primitive right operand.\<close>

fun hasKey :: "string \<Rightarrow> json \<Rightarrow> error + bool" where
  "hasKey k (JObj kvs) = Inr (map_of kvs k \<noteq> None)"
| "hasKey k (JArr xs) = Inr False"
| "hasKey k v = Inl (TypeError ''Cannot use 'in' operator to search for a key in a primitive'')"

text \<open>\<open>Object.keys(scores).length\<close>.\<close>

fun keyCount :: "json \<Rightarrow> nat" where
  "keyCount (JObj kvs) = length (remdups (map fst kvs))"
| "keyCount (JArr xs) = length xs"
| "keyCount (JStr s) = length s"
| "keyCount v = 0"

text \<open>
  The array destructuring \<open>([label, score])\<close> of one element: an array gives its first
  two elements, a string its first two characters, anything else is not iterable.
\<close>

definition nthOrUndefined :: "json list \<Rightarrow> nat \<Rightarrow> json" where
  "nthOrUndefined xs i = (if i < length xs then xs ! i else JUndefined)"

fun destructurePair :: "json \<Rightarrow> error + (json \<times> json)" where
  "destructurePair (JArr ys) = Inr (nthOrUndefined ys 0, nthOrUndefined ys 1)"
| "destructurePair (JStr s) = Inr (nthOrUndefined (map (\<lambda>c. JStr [c]) s) 0,
                                   nthOrUndefined (map (\<lambda>c. JStr [c]) s) 1)"
| "destructurePair v = Inl (TypeError ''value is not iterable'')"

text \<open>The \<open>forEach\<close> that turns \<open>[[label, score], ...]\<close> into \<open>{label: score, ...}\<close>.\<close>

fun pairsToScores :: "json list \<Rightarrow> (string \<times> json) list \<Rightarrow> error + (string \<times> json) list" where
  "pairsToScores [] scores = Inr scores"
| "pairsToScores (el # els) scores =
     (case destructurePair el of
        Inl e \<Rightarrow> Inl e
      | Inr (label, score) \<Rightarrow>
          pairsToScores els
            (case (label, score) of
               (JStr l, JNum x) \<Rightarrow> AList.update (toLowerCase l) (JNum x) scores
             | _ \<Rightarrow> scores))"

text \<open>
  The first part of \<open>parseModerationResponse\<close>: the value bound to \<open>scores\<close>, or
  \<open>None\<close> where the function returns the unexpected-format outcome.
\<close>

fun extractScores :: "json \<Rightarrow> error + json option" where
  "extractScores (JArr xs) =
     (case xs of
        JArr p # rest \<Rightarrow>
          (case pairsToScores xs [] of Inl e \<Rightarrow> Inl e | Inr scores \<Rightarrow> Inr (Some (JObj scores)))
      | _ \<Rightarrow> Inr (Some (orChain [nthOrUndefined xs 0] (JObj []))))"
| "extractScores (JObj kvs) = Inr (Some (JObj kvs))"
| "extractScores JNull = Inr (Some JNull)"
| "extractScores v = Inr None"

definition toxicCategories :: "string list" where
  "toxicCategories =
     [''violence_graphic'', ''violence'', ''sexual_minors'', ''sexual'', ''self_harm_intent'',
      ''self_harm_instructions'', ''self_harm'', ''hate_threatening'', ''hate'',
      ''harassment_threatening'', ''harassment'', ''illicit_violent'', ''illicit'',
      ''violence/graphic'', ''sexual/minors'', ''self-harm/intent'', ''self-harm/instructions'',
      ''self-harm'', ''hate/threatening'', ''harassment/threatening'', ''illicit/violent'',
      ''violence graphic'', ''sexual minors'', ''self harm'', ''hate threatening'',
      ''harassment threatening'']"

text \<open>The score looked up for one category, under the six key spellings tried.\<close>

definition lookupScore :: "(string \<Rightarrow> json) \<Rightarrow> string \<Rightarrow> json" where
  "lookupScore scores category =
     (let categoryLower = toLowerCase category
      in orChain [scores category, scores categoryLower,
                  scores (category @ ''_score''), scores (categoryLower @ ''_score''),
                  scores (category @ ''Score''), scores (categoryLower @ ''Score'')]
           (JNum 0))"

text \<open>One iteration of the category loop on \<open>(categoryScores, maxScore, maxCategory)\<close>.\<close>

definition categoryStep ::
  "(string \<Rightarrow> json) \<Rightarrow> (string \<times> real) list \<times> real \<times> string option \<Rightarrow> string
     \<Rightarrow> (string \<times> real) list \<times> real \<times> string option" where
  "categoryStep scores acc category =
     (case acc of (categoryScores, maxScore, maxCategory) \<Rightarrow>
        (case lookupScore scores category of
           JNum score \<Rightarrow>
             if toLowerCase category \<noteq> ''safe content''
             then (AList.update category score categoryScores,
                   if score > maxScore then score else maxScore,
                   if score > maxScore then Some category else maxCategory)
             else acc
         | _ \<Rightarrow> acc))"

definition okScoreOf :: "(string \<Rightarrow> json) \<Rightarrow> json" where
  "okScoreOf scores =
     orChain [scores ''safe'', scores ''Safe'', scores ''OK'', scores ''ok'',
              scores ''non_toxic'', scores ''safe content'', scores ''Safe Content'']
       (JNum 0)"

text \<open>The number a relational operator compares (\<open>None\<close> is \<open>NaN\<close>).\<close>

definition numberOf :: "runtime \<Rightarrow> json \<Rightarrow> real option" where
  "numberOf rt v = (case v of JNum x \<Rightarrow> Some x | _ \<Rightarrow> ToNumber rt v)"

definition okBelow :: "runtime \<Rightarrow> json \<Rightarrow> real \<Rightarrow> bool" where
  "okBelow rt okScore bound =
     (case numberOf rt okScore of None \<Rightarrow> False | Some x \<Rightarrow> x > 0 \<and> x < bound)"

definition unexpectedResponse :: "json \<Rightarrow> outcome" where
  "unexpectedResponse response =
     \<lparr> isBlocked = False, reason = UNEXPECTED_RESPONSE, details = ResponseDetails response \<rparr>"

definition parseModerationResponse :: "runtime \<Rightarrow> config \<Rightarrow> json \<Rightarrow> error + outcome" where
  "parseModerationResponse rt cfg apiResponse =
     (case extractScores apiResponse of
        Inl e \<Rightarrow> Inl e
      | Inr None \<Rightarrow> Inr (unexpectedResponse apiResponse)
      | Inr (Some scores) \<Rightarrow>
          (case propertiesOf scores of
             Inl e \<Rightarrow> Inl e
           | Inr get \<Rightarrow>
               (case foldl (categoryStep get) ([], 0, None) toxicCategories of
                  (categoryScores, maxScore, maxCategory) \<Rightarrow>
                    (let isFlagged = (get ''is_flagged'' = JBool True);
                         isSaferFlagged = (get ''is_safer_flagged'' = JBool True)
                     in case hasKey ''is_flagged'' scores of
                          Inl e \<Rightarrow> Inl e
                        | Inr hasFirst \<Rightarrow>
                           (case (if hasFirst then Inr True
                                  else hasKey ''is_safer_flagged'' scores) of
                              Inl e \<Rightarrow> Inl e
                            | Inr hasFlags \<Rightarrow>
                               (let okScore = okScoreOf get;
                                    threshold = moderation_threshold cfg;
                                    blocked =
                                      (if hasFlags then isFlagged \<or> isSaferFlagged
                                       else maxScore \<ge> threshold \<or>
                                            okBelow rt okScore (1 - threshold));
                                    category =
                                      (case maxCategory of None \<Rightarrow> ''toxicity'' | Some c \<Rightarrow> c);
                                    why =
                                      (if blocked then
                                         (if hasFlags then
                                            (if isFlagged \<and> isSaferFlagged then BlockedModelAndSafer
                                             else if isFlagged then BlockedModel
                                             else BlockedSafer category)
                                          else BlockedDueTo category maxScore)
                                       else OK)
                                in Inr \<lparr> isBlocked = blocked, reason = why,
                                         details = ScoreDetails
                                           \<lparr> d_scores = categoryScores,
                                             d_maxScore = maxScore,
                                             d_maxCategory = maxCategory,
                                             d_okScore = okScore,
                                             d_threshold = threshold,
                                             d_isFlagged =
                                               (if hasFlags then Some isFlagged else None),
                                             d_isSaferFlagged =
                                               (if hasFlags then Some isSaferFlagged else None),
                                             d_rawScores =
                                               (if keyCount scores < 50 then Some scores
                                                else None) \<rparr> \<rparr>))))))"

text \<open>\<open>JSON.stringify(v).substring(0, 200)\<close>: \<open>JSON.stringify(undefined)\<close> is
  \<open>undefined\<close>, whose \<open>substring\<close> cannot be read.\<close>

definition stringify200 :: "runtime \<Rightarrow> json \<Rightarrow> error + string" where
  "stringify200 rt v =
     (case v of
        JUndefined \<Rightarrow> Inl (TypeError ''Cannot read properties of undefined'')
      | _ \<Rightarrow> Inr (take 200 (JSON_stringify rt v)))"

fun isArray :: "json \<Rightarrow> bool" where
  "isArray (JArr xs) = True"
| "isArray v = False"

text \<open>\<open>clientResponse.data\<close> where \<open>clientResponse\<close> is truthy.\<close>

definition dataOf :: "json \<Rightarrow> json" where
  "dataOf clientResponse =
     (case propertiesOf clientResponse of Inl e \<Rightarrow> JUndefined | Inr get \<Rightarrow> get ''data'')"

text \<open>The \<open>try\<close> block of \<open>parseGradioClientResponse\<close>.\<close>

definition parseGradioClientResponse_try :: "runtime \<Rightarrow> config \<Rightarrow> json \<Rightarrow> error + outcome" where
  "parseGradioClientResponse_try rt cfg clientResponse =
     (case (if truthy clientResponse \<and> truthy (dataOf clientResponse)
               \<and> isArray (dataOf clientResponse)
            then Some (dataOf clientResponse)
            else if isArray clientResponse then Some clientResponse
            else None) of
        None \<Rightarrow>
          (case stringify200 rt clientResponse of
             Inl e \<Rightarrow> Inl e
           | Inr logged \<Rightarrow> Inr (unexpectedResponse clientResponse))
      | Some (JArr dataArray) \<Rightarrow>
          if length dataArray < 2 then Inr (unexpectedResponse clientResponse)
          else
            (let jsonString = dataArray ! 1
             in if \<not> truthy jsonString then Inr (unexpectedResponse clientResponse)
                else
                  (case jsonString of
                     JStr str \<Rightarrow>
                       (case JSON_parse rt str of
                          Inl parseError \<Rightarrow>
                            Inr \<lparr> isBlocked = False, reason = PARSE_ERROR,
                                  details = JsonErrorDetails (message parseError)
                                              (take 200 str) \<rparr>
                        | Inr moderationData \<Rightarrow> parseModerationResponse rt cfg moderationData)
                   | _ \<Rightarrow> parseModerationResponse rt cfg jsonString))
      | Some other \<Rightarrow> Inr (unexpectedResponse clientResponse))"

text \<open>\<open>parseGradioClientResponse\<close>: the \<open>catch\<close> block builds a parse-error outcome,
  and itself reads \<open>JSON.stringify(clientResponse).substring\<close>.\<close>

definition parseGradioClientResponse :: "runtime \<Rightarrow> config \<Rightarrow> json \<Rightarrow> error + outcome" where
  "parseGradioClientResponse rt cfg clientResponse =
     (case parseGradioClientResponse_try rt cfg clientResponse of
        Inr result \<Rightarrow> Inr result
      | Inl e \<Rightarrow>
          (case stringify200 rt clientResponse of
             Inl e' \<Rightarrow> Inl e'
           | Inr response \<Rightarrow>
               Inr \<lparr> isBlocked = False, reason = PARSE_ERROR,
                     details = ParseErrorDetails (message e) (Some response) \<rparr>))"

text \<open>
  The awaited upstream calls of \<open>moderateText\<close>, as results: connecting the Gradio
  client (\<open>Some e\<close> when it rejects), \<open>client.predict\<close> on the message and the safer
  value, and \<open>axios.post\<close> (its \<open>response.data\<close>). A network error or a timeout is a
  rejection.
\<close>

record upstream =
  gradio_connect :: "error option"
  gradio_predict :: "string \<Rightarrow> real \<Rightarrow> error + json"
  axios_post :: "string \<Rightarrow> error + json"

text \<open>The \<open>try\<close> block of \<open>moderateText\<close>.\<close>

definition moderateText_try :: "runtime \<Rightarrow> config \<Rightarrow> upstream \<Rightarrow> string \<Rightarrow> error + outcome" where
  "moderateText_try rt cfg up txt =
     (if isSpaceAPI cfg then
        (case gradio_connect up of
           Some e \<Rightarrow> Inl e
         | None \<Rightarrow>
             (case gradio_predict up txt (saferValue cfg) of
                Inl e \<Rightarrow> Inl e
              | Inr result \<Rightarrow> parseGradioClientResponse rt cfg result))
      else
        (case axios_post up txt of
           Inl e \<Rightarrow> Inl e
         | Inr responseData \<Rightarrow> parseModerationResponse rt cfg responseData))"

definition apiError :: "error \<Rightarrow> outcome" where
  "apiError e =
     \<lparr> isBlocked = False, reason = API_ERROR,
       details = ApiErrorDetails (message e) ''Message allowed due to API error'' \<rparr>"

text \<open>\<open>moderateText\<close>; \<open>Inl\<close> would be a rejection of the returned promise.\<close>

definition moderateText :: "runtime \<Rightarrow> config \<Rightarrow> upstream \<Rightarrow> json \<Rightarrow> error + outcome" where
  "moderateText rt cfg up txt =
     (case txt of
        JStr s \<Rightarrow>
          if s = [] \<or> length (trim s) = 0
          then Inr \<lparr> isBlocked = False, reason = EmptyMessage, details = NoDetails \<rparr>
          else (case moderateText_try rt cfg up s of
                  Inl e \<Rightarrow> Inr (apiError e)
                | Inr result \<Rightarrow> Inr result)
      | _ \<Rightarrow> Inr \<lparr> isBlocked = False, reason = EmptyMessage, details = NoDetails \<rparr>)"

subsection \<open>Notions the moderation properties are stated with\<close>



text \<open>
  The moderation payload inside a Gradio client response, when there is one: the second
  element of the data array, parsed when it is a string.
\<close>

definition gradioPayload :: "runtime \<Rightarrow> json \<Rightarrow> json option" where
  "gradioPayload rt clientResponse =
     (case (case dataOf clientResponse of JArr d \<Rightarrow> Some d
            | _ \<Rightarrow> (case clientResponse of JArr d \<Rightarrow> Some d | _ \<Rightarrow> None)) of
        None \<Rightarrow> None
      | Some dataArray \<Rightarrow>
          if length dataArray < 2 \<or> \<not> truthy (dataArray ! 1) then None
          else (case dataArray ! 1 of
                  JStr str \<Rightarrow> (case JSON_parse rt str of Inl e \<Rightarrow> None | Inr v \<Rightarrow> Some v)
                | v \<Rightarrow> Some v))"

text \<open>A payload is well-shaped when it normalizes to an object of scores.\<close>

definition scoresObject :: "json \<Rightarrow> (string \<times> json) list option" where
  "scoresObject payload =
     (case extractScores payload of Inr (Some (JObj kvs)) \<Rightarrow> Some kvs | _ \<Rightarrow> None)"

text \<open>
  An upstream failure for a message: the call is rejected (network error, timeout), the
  response carries no payload, or the payload does not normalize to an object of scores.
\<close>

definition upstreamFailure :: "runtime \<Rightarrow> config \<Rightarrow> upstream \<Rightarrow> string \<Rightarrow> bool" where
  "upstreamFailure rt cfg up txt =
     (if isSpaceAPI cfg then
        gradio_connect up \<noteq> None \<or>
        (case gradio_predict up txt (saferValue cfg) of
           Inl e \<Rightarrow> True
         | Inr result \<Rightarrow>
             (case gradioPayload rt result of
                None \<Rightarrow> True
              | Some payload \<Rightarrow> scoresObject payload = None))
      else
        (case axios_post up txt of
           Inl e \<Rightarrow> True
         | Inr responseData \<Rightarrow> scoresObject responseData = None))"

section \<open>Per-connection stores (socketHandler.js)\<close>

type_synonym socketId = string

text \<open>
  A chat message as built by the handlers. Its \<open>timestamp\<close>, the ISO rendering of
  \<open>new Date()\<close>, is kept as the instant in milliseconds; \<open>moderationStatus\<close> and
  \<open>details\<close> are absent from a greeting.
\<close>

record chatMessage =
  m_id :: string
  m_text :: string
  m_author :: string
  m_timestamp :: int
  m_moderationStatus :: "reason option"
  m_details :: "details option"
  m_isAI :: bool

record historyEntry =
  h_author :: string
  h_text :: string
  h_timestamp :: int

type_synonym rateMap = "socketId \<rightharpoonup> int list"
type_synonym historyMap = "socketId \<rightharpoonup> historyEntry list"

text \<open>The timestamps stored for a key (\<open>none\<close> before the first check).\<close>

definition recorded :: "rateMap \<Rightarrow> socketId \<Rightarrow> int list" where
  "recorded rateLimitMap socketId =
     (case rateLimitMap socketId of None \<Rightarrow> [] | Some messages \<Rightarrow> messages)"

text \<open>\<open>checkRateLimit\<close>, with \<open>Date.now()\<close> passed in as \<open>now\<close>.\<close>

definition checkRateLimit :: "config \<Rightarrow> int \<Rightarrow> socketId \<Rightarrow> rateMap \<Rightarrow> bool \<times> rateMap" where
  "checkRateLimit cfg now socketId rateLimitMap =
     (let oneMinuteAgo = now - 60000;
          m1 = (if rateLimitMap socketId = None then rateLimitMap(socketId \<mapsto> [])
                else rateLimitMap);
          messages = recorded m1 socketId;
          recentMessages = filter (\<lambda>timestamp. timestamp > oneMinuteAgo) messages
      in if int (length recentMessages) \<ge> rateLimit_messagesPerMinute cfg then (False, m1)
         else (True, m1(socketId \<mapsto> recentMessages @ [now])))"

definition checkAIRateLimit :: "int \<Rightarrow> socketId \<Rightarrow> rateMap \<Rightarrow> bool \<times> rateMap" where
  "checkAIRateLimit now socketId aiResponseRateLimitMap =
     (let oneMinuteAgo = now - 60000;
          m1 = (if aiResponseRateLimitMap socketId = None
                then aiResponseRateLimitMap(socketId \<mapsto> [])
                else aiResponseRateLimitMap);
          aiResponses = recorded m1 socketId;
          recentResponses = filter (\<lambda>timestamp. timestamp > oneMinuteAgo) aiResponses
      in if length recentResponses \<ge> 10 then (False, m1)
         else (True, m1(socketId \<mapsto> recentResponses @ [now])))"

text \<open>A run of rate-limit checks for one key at the given clock readings.\<close>

fun checkAll :: "config \<Rightarrow> socketId \<Rightarrow> int list \<Rightarrow> rateMap \<Rightarrow> bool list \<times> rateMap" where
  "checkAll cfg socketId [] m = ([], m)"
| "checkAll cfg socketId (t # ts) m =
     (let r = checkRateLimit cfg t socketId m;
          rs = checkAll cfg socketId ts (snd r)
      in (fst r # fst rs, snd rs))"

text \<open>The clock readings of a run whose check was accepted.\<close>

fun acceptedTimes :: "int list \<Rightarrow> bool list \<Rightarrow> int list" where
  "acceptedTimes (t # ts) (ok # oks) = (if ok then t # acceptedTimes ts oks else acceptedTimes ts oks)"
| "acceptedTimes ts oks = []"

text \<open>\<open>conversationHistoryMap.get(socketId) || []\<close>.\<close>

definition getHistory :: "historyMap \<Rightarrow> socketId \<Rightarrow> historyEntry list" where
  "getHistory conversationHistoryMap socketId =
     (case conversationHistoryMap socketId of None \<Rightarrow> [] | Some history \<Rightarrow> history)"

text \<open>The entry \<open>addToConversationHistory\<close> pushes for a message.\<close>

definition entryOf :: "chatMessage \<Rightarrow> historyEntry" where
  "entryOf messageData =
     \<lparr> h_author = (if m_author messageData = [] then ''Anonymous'' else m_author messageData),
       h_text = m_text messageData,
       h_timestamp = m_timestamp messageData \<rparr>"

definition addToConversationHistory ::
  "config \<Rightarrow> socketId \<Rightarrow> chatMessage \<Rightarrow> historyMap \<Rightarrow> historyMap" where
  "addToConversationHistory cfg socketId messageData conversationHistoryMap =
     (let history = getHistory conversationHistoryMap socketId @ [entryOf messageData];
          maxHistory = ai_conversationHistorySize cfg
      in conversationHistoryMap(socketId \<mapsto>
           (if int (length history) > maxHistory then tl history else history)))"

text \<open>Appending a sequence of messages to one connection's history, in order.\<close>

definition addAllToHistory ::
  "config \<Rightarrow> socketId \<Rightarrow> chatMessage list \<Rightarrow> historyMap \<Rightarrow> historyMap" where
  "addAllToHistory cfg socketId mds m =
     foldl (\<lambda>m' md. addToConversationHistory cfg socketId md m') m mds"

section \<open>AI responder (aiService.js)\<close>

definition AI_AUTHOR_NAME :: string where
  "AI_AUTHOR_NAME = ''AI Moderator''"

text \<open>
  The request sent to the chat-completion provider. The system prompts are fixed
  templates over \<open>config.ai.maxResponseLength\<close> (and the user name, for a greeting),
  kept symbolic here, as are the greeting request and the rewritten user turn for a
  blocked message (the message and the category named).
\<close>

datatype role = System | User | Assistant

datatype content =
    SystemPrompt bool int
  | GreetingSystemPrompt string int
  | GreetingRequest string
  | Text string
  | BlockedContext string string

record promptMessage =
  p_role :: role
  p_content :: content

text \<open>\<open>conversationHistory.slice(-n)\<close>.\<close>

definition sliceLast :: "int \<Rightarrow> 'a list \<Rightarrow> 'a list" where
  "sliceLast n xs =
     (if n > 0 then drop (length xs - nat n) xs
      else if n = 0 then xs
      else drop (nat (- n)) xs)"

text \<open>\<open>details.maxCategory || 'some issues'\<close>.\<close>

definition blockedCategory :: "details \<Rightarrow> string" where
  "blockedCategory d =
     (case d of
        ScoreDetails sd \<Rightarrow>
          (case d_maxCategory sd of
             None \<Rightarrow> ''some issues''
           | Some c \<Rightarrow> if c = [] then ''some issues'' else c)
      | _ \<Rightarrow> ''some issues'')"

definition buildMessages ::
  "config \<Rightarrow> string \<Rightarrow> outcome \<Rightarrow> historyEntry list \<Rightarrow> bool \<Rightarrow> promptMessage list" where
  "buildMessages cfg userMessage moderationResult conversationHistory blocked =
     [\<lparr> p_role = System, p_content = SystemPrompt blocked (ai_maxResponseLength cfg) \<rparr>]
     @ map (\<lambda>msg. if h_author msg = AI_AUTHOR_NAME
                    then \<lparr> p_role = Assistant, p_content = Text (h_text msg) \<rparr>
                    else \<lparr> p_role = User, p_content = Text (h_text msg) \<rparr>)
         (sliceLast (ai_conversationHistorySize cfg) conversationHistory)
     @ [\<lparr> p_role = User,
          p_content =
            (if details moderationResult \<noteq> NoDetails \<and> blocked
             then BlockedContext userMessage (blockedCategory (details moderationResult))
             else Text userMessage) \<rparr>]"

text \<open>
  The provider is the awaited \<open>axios.post\<close> of \<open>callOpenAIAPI\<close> with its \<open>catch\<close>
  block applied: \<open>Inl e\<close> is the error that block rethrows (authentication, rate limit,
  model not found, server error, timeout, network), \<open>Inr d\<close> is \<open>response.data\<close>.
\<close>

type_synonym provider = "promptMessage list \<Rightarrow> error + json"

definition callOpenAIAPI :: "config \<Rightarrow> provider \<Rightarrow> promptMessage list \<Rightarrow> error + json" where
  "callOpenAIAPI cfg provider messages =
     (if ai_apiKey cfg = [] then Inl (Error ''OPENAI_API_KEY is required for AI responses'')
      else provider messages)"

text \<open>\<open>v[key]\<close> where \<open>v\<close> is known to be truthy.\<close>

definition propOf :: "json \<Rightarrow> string \<Rightarrow> json" where
  "propOf v k = (case propertiesOf v of Inl e \<Rightarrow> JUndefined | Inr get \<Rightarrow> get k)"

text \<open>\<open>choices.length > 0\<close> and \<open>choices[0]\<close> for a truthy \<open>choices\<close>.\<close>

definition nonEmptyChoices :: "runtime \<Rightarrow> json \<Rightarrow> bool" where
  "nonEmptyChoices rt choices =
     (case choices of
        JArr xs \<Rightarrow> xs \<noteq> []
      | JStr str \<Rightarrow> str \<noteq> []
      | JObj kvs \<Rightarrow>
          (case numberOf rt (objectGet kvs ''length'') of None \<Rightarrow> False | Some n \<Rightarrow> n > 0)
      | _ \<Rightarrow> False)"

definition firstOf :: "json \<Rightarrow> json" where
  "firstOf choices =
     (case choices of
        JArr xs \<Rightarrow> nthOrUndefined xs 0
      | JStr str \<Rightarrow> (case str of [] \<Rightarrow> JUndefined | c # cs \<Rightarrow> JStr [c])
      | JObj kvs \<Rightarrow> objectGet kvs ''0''
      | _ \<Rightarrow> JUndefined)"

definition parseOpenAIResponse :: "runtime \<Rightarrow> json \<Rightarrow> error + json" where
  "parseOpenAIResponse rt apiResponse =
     (if \<not> truthy apiResponse then Inl (Error ''Empty response from OpenAI API'')
      else
        (let fallback =
               (if truthy (propOf apiResponse ''content'')
                then Inr (propOf apiResponse ''content'')
                else Inl (Error ''Unable to parse OpenAI response. Unexpected response format.''));
             choices = propOf apiResponse ''choices''
         in if truthy choices \<and> nonEmptyChoices rt choices then
              (case propertiesOf (firstOf choices) of
                 Inl e \<Rightarrow> Inl e
               | Inr firstChoice \<Rightarrow>
                   if truthy (firstChoice ''message'') \<and>
                      truthy (propOf (firstChoice ''message'') ''content'')
                   then Inr (propOf (firstChoice ''message'') ''content'')
                   else fallback)
            else fallback))"

text \<open>The greeting returned when the provider call or the parsing raises: the literal
  of the source, with the UTF-8 bytes of its waving-hand sign.\<close>

definition fallbackGreeting :: "string \<Rightarrow> string" where
  "fallbackGreeting username =
     ''Hey '' @ username @ ''! '' @ [char_of (240 :: nat), char_of (159 :: nat),
        char_of (145 :: nat), char_of (139 :: nat)] @ '' Welcome to the chat! What's up?''"

definition greetingPrompt :: "config \<Rightarrow> string \<Rightarrow> promptMessage list" where
  "greetingPrompt cfg username =
     [\<lparr> p_role = System,
         p_content = GreetingSystemPrompt username (ai_maxResponseLength cfg) \<rparr>,
      \<lparr> p_role = User, p_content = GreetingRequest username \<rparr>]"

text \<open>\<open>generateGreeting\<close>: \<open>None\<close> is the \<open>null\<close> returned when the agent is disabled.\<close>

definition generateGreeting :: "runtime \<Rightarrow> config \<Rightarrow> provider \<Rightarrow> string \<Rightarrow> string option" where
  "generateGreeting rt cfg provider username =
     (if \<not> ai_enabled cfg then None
      else
        (case callOpenAIAPI cfg provider (greetingPrompt cfg username) of
           Inl e \<Rightarrow> Some (fallbackGreeting username)
         | Inr response \<Rightarrow>
             (case parseOpenAIResponse rt response of
                Inl e \<Rightarrow> Some (fallbackGreeting username)
              | Inr (JStr greeting) \<Rightarrow> Some (trim greeting)
              | Inr other \<Rightarrow> Some (fallbackGreeting username))))"

text \<open>\<open>generateAIResponse\<close>: every error is rethrown to the caller; a parsed content
  that is not a string has no \<open>trim\<close> (or \<open>substring\<close>), which raises.\<close>

definition generateAIResponse ::
  "runtime \<Rightarrow> config \<Rightarrow> provider \<Rightarrow> string \<Rightarrow> outcome \<Rightarrow> historyEntry list \<Rightarrow> bool
     \<Rightarrow> error + string" where
  "generateAIResponse rt cfg provider userMessage moderationResult conversationHistory blocked =
     (if \<not> ai_enabled cfg then Inl (Error ''AI agent is disabled'')
      else
        (case callOpenAIAPI cfg provider
                (buildMessages cfg userMessage moderationResult conversationHistory blocked) of
           Inl e \<Rightarrow> Inl e
         | Inr response \<Rightarrow>
             (case parseOpenAIResponse rt response of
                Inl e \<Rightarrow> Inl e
              | Inr (JStr aiText) \<Rightarrow>
                  (let maxLength = ai_maxResponseLength cfg
                   in if int (length aiText) > maxLength
                      then Inr (trim (take (nat maxLength) aiText) @ ''...'')
                      else Inr (trim aiText))
              | Inr other \<Rightarrow> Inl (TypeError ''aiText.trim is not a function''))))"

section \<open>Connection sessions (socketHandler.js)\<close>

text \<open>
  The process-wide maps and, per connection, the closure variable \<open>socketUsername\<close>
  (\<open>None\<close> is \<open>null\<close>).
\<close>

record server =
  rateLimitMap :: rateMap
  conversationHistoryMap :: historyMap
  aiResponseRateLimitMap :: rateMap
  socketUsername :: "socketId \<rightharpoonup> string"

definition initialServer :: server where
  "initialServer =
     \<lparr> rateLimitMap = Map.empty, conversationHistoryMap = Map.empty,
       aiResponseRateLimitMap = Map.empty, socketUsername = Map.empty \<rparr>"

datatype noticeReason = RateLimitExceeded | Moderated reason

record blockedNotice =
  b_id :: "string option"
  b_text :: string
  b_reason :: noticeReason
  b_details :: "details option"
  b_timestamp :: int

text \<open>
  What a handler does besides updating the maps, in order: events emitted to one socket,
  broadcasts to all, calls of the classifier and of the provider, and the AI turn queued
  with \<open>setImmediate\<close>.
\<close>

datatype effect =
    EmitError socketId string "string option"
  | EmitMessageBlocked socketId blockedNotice
  | EmitMessage socketId chatMessage
  | Broadcast chatMessage
  | Classify string
  | Prompted "promptMessage list"
  | Deferred socketId string outcome bool

text \<open>
  What one handler run reads from outside: the clock at the rate-limit check
  (\<open>Date.now()\<close>), at the construction of the id (\<open>Date.now()\<close>) and of the timestamp
  (\<open>new Date()\<close>), the awaited result of \<open>moderateText\<close> for a text, and the provider.
\<close>

record env =
  e_check :: int
  e_id :: int
  e_stamp :: int
  e_moderate :: "string \<Rightarrow> error + outcome"
  e_provider :: provider

definition userMessageId :: "socketId \<Rightarrow> int \<Rightarrow> string" where
  "userMessageId socketId now = socketId @ ''-'' @ showInt now"

definition aiMessageId :: "socketId \<Rightarrow> int \<Rightarrow> string" where
  "aiMessageId socketId now = ''ai-'' @ socketId @ ''-'' @ showInt now"

definition greetingId :: "socketId \<Rightarrow> int \<Rightarrow> string" where
  "greetingId socketId now = ''ai-greeting-'' @ socketId @ ''-'' @ showInt now"

text \<open>The prompts the provider is actually sent (none without an API key).\<close>

definition prompted :: "config \<Rightarrow> promptMessage list \<Rightarrow> effect list" where
  "prompted cfg messages = (if ai_apiKey cfg = [] then [] else [Prompted messages])"

text \<open>\<open>generateAndBroadcastAIResponse\<close>, run when the queued AI turn fires.\<close>

definition generateAndBroadcastAIResponse ::
  "runtime \<Rightarrow> config \<Rightarrow> env \<Rightarrow> socketId \<Rightarrow> string \<Rightarrow> outcome \<Rightarrow> bool \<Rightarrow> server
     \<Rightarrow> server \<times> effect list" where
  "generateAndBroadcastAIResponse rt cfg ev socketId userMessage moderationResult blocked s =
     (if \<not> ai_enabled cfg then (s, [])
      else
        (let rl = checkAIRateLimit (e_check ev) socketId (aiResponseRateLimitMap s);
             s1 = s\<lparr>aiResponseRateLimitMap := snd rl\<rparr>
         in if \<not> fst rl then (s1, [])
            else
              (let conversationHistory = getHistory (conversationHistoryMap s1) socketId;
                   asked = prompted cfg
                     (buildMessages cfg userMessage moderationResult conversationHistory blocked)
               in case generateAIResponse rt cfg (e_provider ev) userMessage moderationResult
                         conversationHistory blocked of
                    Inl e \<Rightarrow> (s1, asked)
                  | Inr aiResponseText \<Rightarrow>
                      if aiResponseText = [] \<or> length (trim aiResponseText) = 0
                      then (s1, asked)
                      else
                        (case e_moderate ev aiResponseText of
                           Inl e \<Rightarrow> (s1, asked @ [Classify aiResponseText])
                         | Inr aiModerationResult \<Rightarrow>
                             if isBlocked aiModerationResult
                             then (s1, asked @ [Classify aiResponseText])
                             else
                               (let aiMessageData =
                                      \<lparr> m_id = aiMessageId socketId (e_id ev),
                                        m_text = aiResponseText,
                                        m_author = AI_AUTHOR_NAME,
                                        m_timestamp = e_stamp ev,
                                        m_moderationStatus = Some (reason aiModerationResult),
                                        m_details = Some (details aiModerationResult),
                                        m_isAI = True \<rparr>
                                in (s1\<lparr>conversationHistoryMap :=
                                         addToConversationHistory cfg socketId aiMessageData
                                           (conversationHistoryMap s1)\<rparr>,
                                    asked @ [Classify aiResponseText, Broadcast aiMessageData]))))))"

text \<open>The greeting message built by the handler of \<open>register_username\<close>.\<close>

definition greetingMessageOf :: "socketId \<Rightarrow> env \<Rightarrow> string \<Rightarrow> chatMessage" where
  "greetingMessageOf socketId ev greeting =
     \<lparr> m_id = greetingId socketId (e_id ev),
       m_text = greeting,
       m_author = AI_AUTHOR_NAME,
       m_timestamp = e_stamp ev,
       m_moderationStatus = None,
       m_details = None,
       m_isAI = True \<rparr>"

text \<open>The handler of \<open>register_username\<close>.\<close>

definition registerUsername ::
  "runtime \<Rightarrow> config \<Rightarrow> env \<Rightarrow> socketId \<Rightarrow> json \<Rightarrow> server \<Rightarrow> server \<times> effect list" where
  "registerUsername rt cfg ev socketId data s =
     (case (if truthy data \<and> truthy (propOf data ''username'')
            then propOf data ''username'' else JUndefined) of
        JStr name \<Rightarrow>
          (let username = trim name
           in if length username = 0 \<or> length username > 20
              then (s, [EmitError socketId ''Username must be between 1 and 20 characters'' None])
              else
                (let s1 = s\<lparr>socketUsername := (socketUsername s)(socketId \<mapsto> username)\<rparr>
                 in if \<not> ai_enabled cfg then (s1, [])
                    else
                      (let asked = prompted cfg (greetingPrompt cfg username)
                       in case generateGreeting rt cfg (e_provider ev) username of
                            None \<Rightarrow> (s1, asked)
                          | Some greeting \<Rightarrow>
                              if greeting = [] then (s1, asked)
                              else
                                (case e_moderate ev greeting of
                                   Inl e \<Rightarrow> (s1, asked @ [Classify greeting])
                                 | Inr greetingModeration \<Rightarrow>
                                     if isBlocked greetingModeration
                                     then (s1, asked @ [Classify greeting])
                                     else
                                       (let greetingMessage =
                                              greetingMessageOf socketId ev greeting
                                        in (s1\<lparr>conversationHistoryMap :=
                                                 addToConversationHistory cfg socketId
                                                   greetingMessage (conversationHistoryMap s1)\<rparr>,
                                            asked @ [Classify greeting,
                                                     EmitMessage socketId greetingMessage]))))))
      | other \<Rightarrow> (s, [EmitError socketId ''Username is required'' None]))"

text \<open>
  The handler of \<open>message\<close>. Past the first guard \<open>socketUsername\<close> is a non-empty
  string, so \<open>socketUsername || data.author || 'Anonymous'\<close> is the registered name.
\<close>

definition handleMessage ::
  "runtime \<Rightarrow> config \<Rightarrow> env \<Rightarrow> socketId \<Rightarrow> json \<Rightarrow> server \<Rightarrow> server \<times> effect list" where
  "handleMessage rt cfg ev socketId data s =
     (case (case socketUsername s socketId of
              None \<Rightarrow> None
            | Some name \<Rightarrow> if name = [] then None else Some name) of
        None \<Rightarrow> (s, [EmitError socketId ''Please set your username first'' None])
      | Some name \<Rightarrow>
          (case (if truthy data then propOf data ''text'' else JUndefined) of
             JStr raw \<Rightarrow>
               (let messageText = stripTags rt (trim raw)
                in if length messageText = 0
                   then (s, [EmitError socketId ''Message cannot be empty'' None])
                   else if length messageText > 1000
                   then (s, [EmitError socketId ''Message too long (max 1000 characters)'' None])
                   else
                     (let rl = checkRateLimit cfg (e_check ev) socketId (rateLimitMap s);
                          s1 = s\<lparr>rateLimitMap := snd rl\<rparr>
                      in if \<not> fst rl
                         then (s1, [EmitMessageBlocked socketId
                                      \<lparr> b_id = None, b_text = messageText,
                                        b_reason = RateLimitExceeded, b_details = None,
                                        b_timestamp = e_stamp ev \<rparr>])
                         else
                           (case e_moderate ev messageText of
                              Inl e \<Rightarrow>
                                (s1, [Classify messageText,
                                      EmitError socketId
                                        ''An error occurred while processing your message''
                                        (Some (message e))])
                            | Inr moderationResult \<Rightarrow>
                                if isBlocked moderationResult
                                then
                                  (s1, [Classify messageText,
                                        EmitMessageBlocked socketId
                                          \<lparr> b_id = Some (userMessageId socketId (e_id ev)),
                                            b_text = messageText,
                                            b_reason = Moderated (reason moderationResult),
                                            b_details = Some (details moderationResult),
                                            b_timestamp = e_stamp ev \<rparr>,
                                        Deferred socketId messageText moderationResult True])
                                else
                                  (let messageData =
                                         \<lparr> m_id = userMessageId socketId (e_id ev),
                                           m_text = messageText,
                                           m_author = name,
                                           m_timestamp = e_stamp ev,
                                           m_moderationStatus = Some (reason moderationResult),
                                           m_details = Some (details moderationResult),
                                           m_isAI = False \<rparr>
                                   in (s1\<lparr>conversationHistoryMap :=
                                            addToConversationHistory cfg socketId messageData
                                              (conversationHistoryMap s1)\<rparr>,
                                       [Classify messageText, Broadcast messageData,
                                        Deferred socketId messageText moderationResult False])))))
           | other \<Rightarrow> (s, [EmitError socketId ''Invalid message format'' None])))"

text \<open>\<open>cleanupRateLimit\<close> and the reset of \<open>socketUsername\<close> on \<open>disconnect\<close>.\<close>

definition disconnect :: "socketId \<Rightarrow> server \<Rightarrow> server" where
  "disconnect socketId s =
     \<lparr> rateLimitMap = (rateLimitMap s)(socketId := None),
       conversationHistoryMap = (conversationHistoryMap s)(socketId := None),
       aiResponseRateLimitMap = (aiResponseRateLimitMap s)(socketId := None),
       socketUsername = (socketUsername s)(socketId := None) \<rparr>"

text \<open>
  The events of the process, each handled in one step: a connection (whose
  \<open>socketUsername\<close> starts as \<open>null\<close>), the two client events, the firing of a queued
  AI turn, and a disconnection.
\<close>

datatype event =
    Connect socketId
  | Register socketId json env
  | Message socketId json env
  | AITurn socketId string outcome bool env
  | Disconnect socketId

fun step :: "runtime \<Rightarrow> config \<Rightarrow> event \<Rightarrow> server \<Rightarrow> server \<times> effect list" where
  "step rt cfg (Connect socketId) s =
     (s\<lparr>socketUsername := (socketUsername s)(socketId := None)\<rparr>, [])"
| "step rt cfg (Register socketId data ev) s = registerUsername rt cfg ev socketId data s"
| "step rt cfg (Message socketId data ev) s = handleMessage rt cfg ev socketId data s"
| "step rt cfg (AITurn socketId userMessage moderationResult blocked ev) s =
     generateAndBroadcastAIResponse rt cfg ev socketId userMessage moderationResult blocked s"
| "step rt cfg (Disconnect socketId) s = (disconnect socketId s, [])"

text \<open>A run of events from a state, with the effects in order.\<close>

fun runFrom :: "runtime \<Rightarrow> config \<Rightarrow> event list \<Rightarrow> server \<Rightarrow> server \<times> effect list" where
  "runFrom rt cfg [] s = (s, [])"
| "runFrom rt cfg (e # es) s =
     (let r = step rt cfg e s; rs = runFrom rt cfg es (fst r)
      in (fst rs, snd r @ snd rs))"

definition run :: "runtime \<Rightarrow> config \<Rightarrow> event list \<Rightarrow> server \<times> effect list" where
  "run rt cfg es = runFrom rt cfg es initialServer"

subsection \<open>Notions the session properties are stated with\<close>

text \<open>A registration payload carries a valid name: a string of 1 to 20 characters
  after trimming.\<close>

definition validName :: "json \<Rightarrow> bool" where
  "validName data =
     (truthy data \<and>
      (case propOf data ''username'' of
         JStr name \<Rightarrow> 1 \<le> length (trim name) \<and> length (trim name) \<le> 20
       | other \<Rightarrow> False))"

definition registeredName :: "json \<Rightarrow> string" where
  "registeredName data = (case propOf data ''username'' of JStr name \<Rightarrow> trim name | other \<Rightarrow> [])"

fun registers :: "socketId \<Rightarrow> event \<Rightarrow> bool" where
  "registers sid (Register socketId data ev) = (socketId = sid \<and> validName data)"
| "registers sid other = False"

text \<open>The classifier consulted in an event let a text pass.\<close>

definition passes :: "env \<Rightarrow> string \<Rightarrow> bool" where
  "passes ev t = (case e_moderate ev t of Inl e \<Rightarrow> False | Inr result \<Rightarrow> \<not> isBlocked result)"

fun accepts :: "event \<Rightarrow> string \<Rightarrow> bool" where
  "accepts (Register socketId data ev) t = passes ev t"
| "accepts (Message socketId data ev) t = passes ev t"
| "accepts (AITurn socketId userMessage moderationResult blocked ev) t = passes ev t"
| "accepts other t = False"

text \<open>Every registered name has 1 to 20 characters.\<close>

definition namesValid :: "server \<Rightarrow> bool" where
  "namesValid s =
     (\<forall>sid n. socketUsername s sid = Some n \<longrightarrow> 1 \<le> length n \<and> length n \<le> 20)"

text \<open>A history map is as before, or has had one message appended that the event's
  classifier let pass.\<close>

definition appended :: "config \<Rightarrow> env \<Rightarrow> socketId \<Rightarrow> historyMap \<Rightarrow> historyMap \<Rightarrow> bool" where
  "appended cfg ev sid m m' \<longleftrightarrow>
     m' = m \<or> (\<exists>md. passes ev (m_text md) \<and> m' = addToConversationHistory cfg sid md m)"

text \<open>The ids of the chat messages and block notices among some effects.\<close>

fun sentIds :: "effect list \<Rightarrow> string list" where
  "sentIds [] = []"
| "sentIds (Broadcast m # fx) = m_id m # sentIds fx"
| "sentIds (EmitMessageBlocked socketId notice # fx) =
     (case b_id notice of None \<Rightarrow> sentIds fx | Some i \<Rightarrow> i # sentIds fx)"
| "sentIds (other # fx) = sentIds fx"

text \<open>The texts replayed as history turns in a prompt: all but its first and last
  message.\<close>

definition historyTurns :: "promptMessage list \<Rightarrow> content list" where
  "historyTurns messages = map p_content (butlast (tl messages))"

fun broadcasts :: "effect list \<Rightarrow> chatMessage list" where
  "broadcasts [] = []"
| "broadcasts (Broadcast m # fx) = m # broadcasts fx"
| "broadcasts (other # fx) = broadcasts fx"

fun unicasts :: "socketId \<Rightarrow> effect list \<Rightarrow> chatMessage list" where
  "unicasts sid [] = []"
| "unicasts sid (EmitMessage socketId m # fx) =
     (if socketId = sid then m # unicasts sid fx else unicasts sid fx)"
| "unicasts sid (other # fx) = unicasts sid fx"

section \<open>Sample inputs\<close>

text \<open>The defaults of config.js, with an API key set.\<close>

definition defaultConfig :: config where
  "defaultConfig =
     \<lparr> huggingFace_apiUrl =
         ''https://api-inference.huggingface.co/models/duchaba/Friendly_Text_Moderation'',
       moderation_threshold = 0.5,
       moderation_saferValue = None,
       rateLimit_messagesPerMinute = 30,
       ai_enabled = True,
       ai_apiKey = ''sk-test'',
       ai_maxResponseLength = 200,
       ai_conversationHistorySize = 5 \<rparr>"

definition sampleRuntime :: runtime where
  "sampleRuntime =
     \<lparr> JSON_parse = (\<lambda>s. if s = ''null'' then Inr JNull
                         else Inl (SyntaxError ''Unexpected token in JSON'')),
       JSON_stringify = (\<lambda>v. ''[object]''),
       ToNumber = (\<lambda>v. None),
       stripTags = (\<lambda>s. s) \<rparr>"

text \<open>An upstream that cannot be reached.\<close>

definition failingUpstream :: upstream where
  "failingUpstream =
     \<lparr> gradio_connect = Some (Error ''connect ECONNREFUSED''),
       gradio_predict = (\<lambda>msg safer. Inl (Error ''timeout of 10000ms exceeded'')),
       axios_post = (\<lambda>msg. Inl (Error ''Network Error'')) \<rparr>"

definition okOutcome :: outcome where
  "okOutcome = \<lparr> isBlocked = False, reason = OK, details = NoDetails \<rparr>"

text \<open>An environment at clock reading \<open>t\<close> whose classifier passes every text and
  whose provider times out.\<close>

definition sampleEnv :: "int \<Rightarrow> env" where
  "sampleEnv t =
     \<lparr> e_check = t, e_id = t, e_stamp = t,
       e_moderate = (\<lambda>msg. Inr okOutcome),
       e_provider = (\<lambda>messages. Inl (Error ''OpenAI service request timed out. Please try again.'')) \<rparr>"

text \<open>A chat-completion response carrying one choice.\<close>

definition completion :: "string \<Rightarrow> json" where
  "completion reply =
     JObj [(''choices'', JArr [JObj [(''message'', JObj [(''content'', JStr reply)])]])]"

definition replyingEnv :: "int \<Rightarrow> string \<Rightarrow> env" where
  "replyingEnv t reply = (sampleEnv t)\<lparr>e_provider := (\<lambda>messages. Inr (completion reply))\<rparr>"

text \<open>An environment whose classifier blocks the text \<open>bad\<close> and passes every other.\<close>

definition blockingEnv :: "int \<Rightarrow> env" where
  "blockingEnv t =
     (sampleEnv t)\<lparr>e_moderate :=
        (\<lambda>msg. if msg = ''bad''
               then Inr \<lparr> isBlocked = True, reason = BlockedModel, details = NoDetails \<rparr>
               else Inr okOutcome)\<rparr>"

text \<open>An environment whose classifier is \<open>moderateText\<close> over the unreachable
  upstream.\<close>

definition degradedEnv :: "int \<Rightarrow> env" where
  "degradedEnv t =
     (sampleEnv t)\<lparr>e_moderate :=
        (\<lambda>msg. moderateText sampleRuntime defaultConfig failingUpstream (JStr msg))\<rparr>"

text \<open>A state in which connection \<open>s1\<close> is registered as Ann.\<close>

definition namedServer :: server where
  "namedServer = initialServer\<lparr>socketUsername := [''s1'' \<mapsto> ''Ann'']\<rparr>"

definition textMessage :: "string \<Rightarrow> json" where
  "textMessage t = JObj [(''text'', JStr t)]"

definition registration :: "string \<Rightarrow> json" where
  "registration name = JObj [(''username'', JStr name)]"

definition sampleMessage :: "string \<Rightarrow> int \<Rightarrow> chatMessage" where
  "sampleMessage txt t =
     \<lparr> m_id = ''s1-'' @ showInt t, m_text = txt, m_author = ''Ann'', m_timestamp = t,
       m_moderationStatus = Some OK, m_details = None, m_isAI = False \<rparr>"

section \<open>Conversation history: bound and FIFO eviction\<close>

lemma getHistory_add_same:
  "getHistory (addToConversationHistory cfg sid md m) sid =
     (let h = getHistory m sid @ [entryOf md]
      in if int (length h) > ai_conversationHistorySize cfg then tl h else h)"
  by (simp add: addToConversationHistory_def getHistory_def Let_def)

lemma add_other_key:
  "sid' \<noteq> sid \<Longrightarrow> addToConversationHistory cfg sid md m sid' = m sid'"
  by (simp add: addToConversationHistory_def Let_def)

lemma add_keeps_last:
  assumes "0 \<le> ai_conversationHistorySize cfg"
    and "int (length (getHistory m sid)) \<le> ai_conversationHistorySize cfg"
  shows "getHistory (addToConversationHistory cfg sid md m) sid =
           drop (Suc (length (getHistory m sid)) - nat (ai_conversationHistorySize cfg))
             (getHistory m sid @ [entryOf md])"
proof (cases "int (length (getHistory m sid)) = ai_conversationHistorySize cfg")
  case True
  then have "Suc (length (getHistory m sid)) - nat (ai_conversationHistorySize cfg) = 1"
    by linarith
  with True show ?thesis
    by (simp add: getHistory_add_same Let_def drop_Suc del: drop_append)
next
  case False
  with assms have "Suc (length (getHistory m sid)) - nat (ai_conversationHistorySize cfg) = 0"
    by linarith
  with False assms show ?thesis
    by (simp add: getHistory_add_same Let_def del: drop_append)
qed

lemma add_length_le:
  assumes "0 \<le> ai_conversationHistorySize cfg"
    and "int (length (getHistory m sid)) \<le> ai_conversationHistorySize cfg"
  shows "int (length (getHistory (addToConversationHistory cfg sid md m) sid))
           \<le> ai_conversationHistorySize cfg"
  using assms by (auto simp: getHistory_add_same Let_def)

lemma addAll_keeps_last:
  assumes "0 \<le> ai_conversationHistorySize cfg"
    and "int (length (getHistory m sid)) \<le> ai_conversationHistorySize cfg"
  shows "int (length (getHistory (addAllToHistory cfg sid mds m) sid))
           \<le> ai_conversationHistorySize cfg \<and>
         getHistory (addAllToHistory cfg sid mds m) sid =
           drop (length (getHistory m sid) + length mds - nat (ai_conversationHistorySize cfg))
             (getHistory m sid @ map entryOf mds)"
  using assms(2)
proof (induction mds arbitrary: m)
  case Nil
  then show ?case by (simp add: addAllToHistory_def)
next
  case (Cons md mds)
  let ?N = "ai_conversationHistorySize cfg"
  let ?h = "getHistory m sid"
  let ?m1 = "addToConversationHistory cfg sid md m"
  have len1: "int (length (getHistory ?m1 sid)) \<le> ?N"
    using add_length_le [OF assms(1) Cons.prems] .
  have h1: "getHistory ?m1 sid = drop (Suc (length ?h) - nat ?N) (?h @ [entryOf md])"
    using add_keeps_last [OF assms(1) Cons.prems] .
  have step: "addAllToHistory cfg sid (md # mds) m = addAllToHistory cfg sid mds ?m1"
    by (simp add: addAllToHistory_def)
  have IH_len: "int (length (getHistory (addAllToHistory cfg sid mds ?m1) sid)) \<le> ?N"
    using Cons.IH [OF len1] by (rule conjunct1)
  have IH_eq: "getHistory (addAllToHistory cfg sid mds ?m1) sid =
       drop (length (getHistory ?m1 sid) + length mds - nat ?N)
         (getHistory ?m1 sid @ map entryOf mds)"
    using Cons.IH [OF len1] by (rule conjunct2)
  have le: "length ?h \<le> nat ?N" using Cons.prems assms(1) by linarith
  have "drop (length (getHistory ?m1 sid) + length mds - nat ?N)
          (getHistory ?m1 sid @ map entryOf mds) =
        drop (length ?h + length (md # mds) - nat ?N) (?h @ map entryOf (md # mds))"
  proof (cases "length ?h = nat ?N")
    case True
    then have a: "getHistory ?m1 sid = drop 1 (?h @ [entryOf md])"
      using h1 by simp
    have b: "length (getHistory ?m1 sid) = length ?h"
      by (simp add: a)
    have c: "drop 1 (?h @ [entryOf md]) @ map entryOf mds
               = drop 1 (?h @ entryOf md # map entryOf mds)"
      by (cases ?h) simp_all
    have d: "length ?h + length mds - nat ?N + 1 = length ?h + length (md # mds) - nat ?N"
      using True by simp
    have "drop (length ?h + length mds - nat ?N) (drop 1 (?h @ entryOf md # map entryOf mds))
            = drop (length ?h + length mds - nat ?N + 1) (?h @ entryOf md # map entryOf mds)"
      by (simp only: drop_drop)
    then show ?thesis
      unfolding a b c d by (simp del: drop_append)
  next
    case False
    with le have lt: "length ?h < nat ?N" by simp
    then have a: "getHistory ?m1 sid = ?h @ [entryOf md]"
      using h1 by simp
    show ?thesis using lt by (simp add: a del: drop_append)
  qed
  with IH_len IH_eq show ?case
    unfolding step by (simp only: simp_thms)
qed

lemma addAll_other_key:
  "sid' \<noteq> sid \<Longrightarrow> addAllToHistory cfg sid mds m sid' = m sid'"
  unfolding addAllToHistory_def
  by (induction mds arbitrary: m) (simp_all add: add_other_key)

section \<open>Rate limiter: the sliding window\<close>

lemma recorded_init:
  "recorded (if m sid = None then m(sid \<mapsto> []) else m) sid = recorded m sid"
  by (simp add: recorded_def split: option.splits)

lemma checkRateLimit_fst:
  "fst (checkRateLimit cfg now sid m) \<longleftrightarrow>
     int (length (filter (\<lambda>t. t > now - 60000) (recorded m sid)))
       < rateLimit_messagesPerMinute cfg"
  by (auto simp: checkRateLimit_def Let_def recorded_init)

lemma checkRateLimit_recorded:
  "recorded (snd (checkRateLimit cfg now sid m)) sid =
     (if fst (checkRateLimit cfg now sid m)
      then filter (\<lambda>t. t > now - 60000) (recorded m sid) @ [now]
      else recorded m sid)"
  by (simp add: checkRateLimit_def Let_def recorded_init)
     (simp add: recorded_def)

lemma checkRateLimit_other:
  "k \<noteq> sid \<Longrightarrow> snd (checkRateLimit cfg now sid m) k = m k"
  by (simp add: checkRateLimit_def Let_def)

lemma checkRateLimit_length:
  assumes "int (length (recorded m sid)) \<le> max 0 (rateLimit_messagesPerMinute cfg)"
  shows "int (length (recorded (snd (checkRateLimit cfg now sid m)) sid))
           \<le> max 0 (rateLimit_messagesPerMinute cfg)"
  using assms by (auto simp: checkRateLimit_recorded checkRateLimit_fst)

lemma checkAll_length:
  assumes "int (length (recorded m sid)) \<le> max 0 (rateLimit_messagesPerMinute cfg)"
  shows "int (length (recorded (snd (checkAll cfg sid ts m)) sid))
           \<le> max 0 (rateLimit_messagesPerMinute cfg)"
  using assms
proof (induction ts arbitrary: m)
  case Nil
  then show ?case by simp
next
  case (Cons t ts)
  from Cons.IH [OF checkRateLimit_length [OF Cons.prems]]
  show ?case by (simp add: Let_def)
qed

text \<open>
  While every check of a run happens within 60 s after \<open>lo\<close>, the stored timestamps
  later than \<open>lo\<close> are the earlier ones followed by the accepted checks of the run.
\<close>

lemma checkAll_window:
  assumes "\<forall>t\<in>set ts. lo < t \<and> t \<le> lo + 60000"
  shows "filter (\<lambda>x. x > lo) (recorded (snd (checkAll cfg sid ts m)) sid) =
           filter (\<lambda>x. x > lo) (recorded m sid)
             @ acceptedTimes ts (fst (checkAll cfg sid ts m))"
  using assms
proof (induction ts arbitrary: m)
  case Nil
  then show ?case by simp
next
  case (Cons t ts)
  let ?r = "checkRateLimit cfg t sid m"
  have t: "lo < t" "t - 60000 \<le> lo" using Cons.prems by auto
  have ff: "filter (\<lambda>x. x > lo) (filter (\<lambda>x. x > t - 60000) xs) = filter (\<lambda>x. x > lo) xs"
    for xs :: "int list"
    using t(2) by (induction xs) auto
  have one: "filter (\<lambda>x. x > lo) (recorded (snd ?r) sid) =
               filter (\<lambda>x. x > lo) (recorded m sid) @ (if fst ?r then [t] else [])"
    using t(1) ff [of "recorded m sid"]
    by (simp add: checkRateLimit_recorded del: filter_filter)
  have rest: "\<forall>t\<in>set ts. lo < t \<and> t \<le> lo + 60000" using Cons.prems by simp
  show ?case
    using Cons.IH [OF rest, of "snd ?r"] one by (simp add: Let_def)
qed

text \<open>
  C3. A check at time \<open>now\<close> is accepted exactly when fewer than the per-minute limit of
  the key's stored timestamps are later than \<open>now - 60000\<close>; an accepted check stores the
  recent timestamps followed by \<open>now\<close>, a rejected one leaves the stored timestamps as
  they were, and other keys are never touched. After a run of checks within the last 60 s
  of which exactly \<open>limit\<close> were accepted, the check at \<open>now\<close> is rejected and records
  nothing. In a state reached from the empty map, once some stored timestamp is 60 s old
  the check is accepted.
\<close>

theorem rate_limit_window:
  "(fst (checkRateLimit cfg now sid m) \<longleftrightarrow>
      int (length (filter (\<lambda>t. t > now - 60000) (recorded m sid)))
        < rateLimit_messagesPerMinute cfg)
   \<and> recorded (snd (checkRateLimit cfg now sid m)) sid =
       (if fst (checkRateLimit cfg now sid m)
        then filter (\<lambda>t. t > now - 60000) (recorded m sid) @ [now]
        else recorded m sid)
   \<and> (\<forall>k. k \<noteq> sid \<longrightarrow> snd (checkRateLimit cfg now sid m) k = m k)
   \<and> ((\<forall>t\<in>set ts. now - 60000 < t \<and> t \<le> now) \<and>
        int (length (acceptedTimes ts (fst (checkAll cfg sid ts m))))
          = rateLimit_messagesPerMinute cfg \<longrightarrow>
        \<not> fst (checkRateLimit cfg now sid (snd (checkAll cfg sid ts m))) \<and>
        recorded (snd (checkRateLimit cfg now sid (snd (checkAll cfg sid ts m)))) sid
          = recorded (snd (checkAll cfg sid ts m)) sid)
   \<and> ((\<exists>t\<in>set (recorded (snd (checkAll cfg sid ts Map.empty)) sid). t + 60000 \<le> now) \<longrightarrow>
        fst (checkRateLimit cfg now sid (snd (checkAll cfg sid ts Map.empty))))"
proof (intro conjI impI allI)
  show "fst (checkRateLimit cfg now sid m) \<longleftrightarrow>
      int (length (filter (\<lambda>t. t > now - 60000) (recorded m sid)))
        < rateLimit_messagesPerMinute cfg"
    by (rule checkRateLimit_fst)
  show "recorded (snd (checkRateLimit cfg now sid m)) sid =
       (if fst (checkRateLimit cfg now sid m)
        then filter (\<lambda>t. t > now - 60000) (recorded m sid) @ [now]
        else recorded m sid)"
    by (rule checkRateLimit_recorded)
  show "snd (checkRateLimit cfg now sid m) k = m k" if "k \<noteq> sid" for k
    using that by (rule checkRateLimit_other)
next
  let ?m = "snd (checkAll cfg sid ts m)"
  assume a: "(\<forall>t\<in>set ts. now - 60000 < t \<and> t \<le> now) \<and>
        int (length (acceptedTimes ts (fst (checkAll cfg sid ts m))))
          = rateLimit_messagesPerMinute cfg"
  then have "\<forall>t\<in>set ts. now - 60000 < t \<and> t \<le> (now - 60000) + 60000" by simp
  from checkAll_window [OF this, of cfg sid m]
  have "length (filter (\<lambda>x. x > now - 60000) (recorded ?m sid))
          \<ge> length (acceptedTimes ts (fst (checkAll cfg sid ts m)))"
    by simp
  with a show rej: "\<not> fst (checkRateLimit cfg now sid ?m)"
    by (simp add: checkRateLimit_fst)
  show "recorded (snd (checkRateLimit cfg now sid ?m)) sid = recorded ?m sid"
    using rej by (simp add: checkRateLimit_recorded)
next
  let ?m = "snd (checkAll cfg sid ts Map.empty)"
  assume "\<exists>t\<in>set (recorded ?m sid). t + 60000 \<le> now"
  then obtain t where t: "t \<in> set (recorded ?m sid)" "t + 60000 \<le> now" by blast
  have "int (length (recorded Map.empty sid)) \<le> max 0 (rateLimit_messagesPerMinute cfg)"
    by (simp add: recorded_def)
  from checkAll_length [OF this]
  have len: "int (length (recorded ?m sid)) \<le> max 0 (rateLimit_messagesPerMinute cfg)" .
  have "\<not> (now - 60000 < t)" using t(2) by simp
  with t(1) have "length (filter (\<lambda>x. x > now - 60000) (recorded ?m sid))
                    < length (recorded ?m sid)"
    by (intro length_filter_less) auto
  moreover have "recorded ?m sid \<noteq> []" using t(1) by auto
  ultimately show "fst (checkRateLimit cfg now sid ?m)"
    using len by (simp add: checkRateLimit_fst)
qed

theorem rate_limit_window_witness:
  "checkAll (defaultConfig\<lparr>rateLimit_messagesPerMinute := 2\<rparr>) ''s1'' [1000, 2000] Map.empty
     = ([True, True], [''s1'' \<mapsto> [1000, 2000]])
   \<and> \<not> fst (checkRateLimit (defaultConfig\<lparr>rateLimit_messagesPerMinute := 2\<rparr>) 3000 ''s1''
             [''s1'' \<mapsto> [1000, 2000]])
   \<and> recorded (snd (checkRateLimit (defaultConfig\<lparr>rateLimit_messagesPerMinute := 2\<rparr>) 3000
             ''s1'' [''s1'' \<mapsto> [1000, 2000]])) ''s1'' = [1000, 2000]
   \<and> fst (checkRateLimit (defaultConfig\<lparr>rateLimit_messagesPerMinute := 2\<rparr>) 61000 ''s1''
             [''s1'' \<mapsto> [1000, 2000]])"
proof -
  let ?cfg = "defaultConfig\<lparr>rateLimit_messagesPerMinute := 2\<rparr>"
  have run: "checkAll ?cfg ''s1'' [1000, 2000] Map.empty
               = ([True, True], [''s1'' \<mapsto> [1000, 2000]])"
    by (simp add: checkRateLimit_def recorded_def defaultConfig_def Let_def)
  have h1: "(\<forall>t\<in>set [1000, 2000]. 3000 - 60000 < t \<and> t \<le> (3000::int)) \<and>
      int (length (acceptedTimes [1000, 2000]
        (fst (checkAll ?cfg ''s1'' [1000, 2000] Map.empty))))
        = rateLimit_messagesPerMinute ?cfg"
    unfolding run by simp
  have h2: "\<exists>t\<in>set (recorded (snd (checkAll ?cfg ''s1'' [1000, 2000] Map.empty)) ''s1'').
      t + 60000 \<le> 61000"
    unfolding run by (simp add: recorded_def)
  note r1 = rate_limit_window [of ?cfg 3000 "''s1''" Map.empty "[1000, 2000]",
      THEN conjunct2, THEN conjunct2, THEN conjunct2, THEN conjunct1, THEN mp, OF h1]
  note r2 = rate_limit_window [of ?cfg 61000 "''s1''" Map.empty "[1000, 2000]",
      THEN conjunct2, THEN conjunct2, THEN conjunct2, THEN conjunct2, THEN mp, OF h2]
  show ?thesis
    using r1 r2 unfolding run by (simp add: recorded_def)
qed

section \<open>Moderation: the decision rule\<close>



lemma extractScores_not_array: "extractScores d = Inr (Some v) \<Longrightarrow> \<not> isArray v"
  by (cases d) (auto simp: nthOrUndefined_def split: list.splits json.splits sum.splits if_splits)

lemma parse_no_scores:
  assumes "scoresObject d = None" and "parseModerationResponse rt cfg d = Inr out"
  shows "out = unexpectedResponse d"
proof (cases "extractScores d")
  case (Inl e)
  with assms(2) show ?thesis by (simp add: parseModerationResponse_def)
next
  case (Inr r)
  show ?thesis
  proof (cases r)
    case None
    with Inr assms(2) show ?thesis by (simp add: parseModerationResponse_def)
  next
    case (Some v)
    have na: "\<not> isArray v" using extractScores_not_array Inr Some by blast
    have no: "\<forall>kvs. v \<noteq> JObj kvs" using assms(1) Inr Some by (auto simp: scoresObject_def)
    from na no have "(\<exists>e. propertiesOf v = Inl e) \<or> (\<exists>e. hasKey ''is_flagged'' v = Inl e)"
      by (cases v) auto
    with assms(2) Inr Some show ?thesis
      by (auto simp: parseModerationResponse_def split: sum.splits prod.splits)
  qed
qed



section \<open>Moderation: degrading open\<close>

lemma dataOf_array: "dataOf r = JArr d \<Longrightarrow> truthy r"
  by (cases r) (auto simp: dataOf_def)

text \<open>The data array the envelope check selects.\<close>

lemma gradio_try_array:
  assumes "dataOf r = JArr d \<or> (\<not> isArray (dataOf r) \<and> r = JArr d)"
  shows "parseGradioClientResponse_try rt cfg r =
     (if length d < 2 then Inr (unexpectedResponse r)
      else if \<not> truthy (d ! 1) then Inr (unexpectedResponse r)
      else (case d ! 1 of
              JStr str \<Rightarrow>
                (case JSON_parse rt str of
                   Inl parseError \<Rightarrow>
                     Inr \<lparr> isBlocked = False, reason = PARSE_ERROR,
                           details = JsonErrorDetails (message parseError) (take 200 str) \<rparr>
                 | Inr moderationData \<Rightarrow> parseModerationResponse rt cfg moderationData)
            | _ \<Rightarrow> parseModerationResponse rt cfg (d ! 1)))"
  using assms
proof
  assume a: "dataOf r = JArr d"
  then have "truthy r" by (rule dataOf_array)
  with a show ?thesis
    by (simp add: parseGradioClientResponse_try_def Let_def del: One_nat_def)
next
  assume a: "\<not> isArray (dataOf r) \<and> r = JArr d"
  then have "dataOf r = JUndefined" by (simp add: dataOf_def)
  with a show ?thesis
    by (simp add: parseGradioClientResponse_try_def Let_def del: One_nat_def)
qed

lemma gradio_try_no_array:
  assumes "\<not> isArray (dataOf r)" and "\<not> isArray r"
    and "parseGradioClientResponse_try rt cfg r = Inr out"
  shows "out = unexpectedResponse r"
  using assms
  by (simp add: parseGradioClientResponse_try_def split: sum.splits)

lemma gradioPayload_array:
  assumes "dataOf r = JArr d \<or> (\<not> isArray (dataOf r) \<and> r = JArr d)"
  shows "gradioPayload rt r =
     (if length d < 2 \<or> \<not> truthy (d ! 1) then None
      else (case d ! 1 of
              JStr str \<Rightarrow> (case JSON_parse rt str of Inl e \<Rightarrow> None | Inr v \<Rightarrow> Some v)
            | v \<Rightarrow> Some v))"
  using assms
  by (cases "dataOf r") (auto simp: gradioPayload_def simp del: One_nat_def)

lemma gradioPayload_no_array:
  assumes "\<not> isArray (dataOf r)" and "\<not> isArray r"
  shows "gradioPayload rt r = None"
  using assms
  by (cases "dataOf r"; cases r) (simp_all add: gradioPayload_def)

lemma gradio_cases:
  "(\<exists>d. dataOf r = JArr d \<or> (\<not> isArray (dataOf r) \<and> r = JArr d))
     \<or> (\<not> isArray (dataOf r) \<and> \<not> isArray r)"
  by (cases "dataOf r"; cases r) simp_all

lemma gradio_payload:
  assumes "gradioPayload rt r = Some p"
  shows "parseGradioClientResponse_try rt cfg r = parseModerationResponse rt cfg p"
proof -
  from gradio_cases [of r] gradioPayload_no_array [of r rt] assms
  obtain d where d: "dataOf r = JArr d \<or> (\<not> isArray (dataOf r) \<and> r = JArr d)"
    by auto
  have g: "(if length d < 2 \<or> \<not> truthy (d ! 1) then None
      else (case d ! 1 of
              JStr str \<Rightarrow> (case JSON_parse rt str of Inl e \<Rightarrow> None | Inr v \<Rightarrow> Some v)
            | v \<Rightarrow> Some v)) = Some p"
    using gradioPayload_array [OF d, of rt] assms by simp
  then have l: "\<not> length d < 2" "truthy (d ! 1)"
    by (auto split: if_splits)
  show ?thesis
  proof (cases "\<exists>str. d ! 1 = JStr str")
    case True
    then obtain str where str: "d ! 1 = JStr str" by blast
    with g l have "JSON_parse rt str = Inr p"
      by (auto simp del: One_nat_def split: sum.splits if_splits)
    with l str show ?thesis
      unfolding gradio_try_array [OF d] by (simp del: One_nat_def)
  next
    case False
    with g l have "d ! 1 = p"
      by (cases "d ! 1") (auto simp del: One_nat_def split: if_splits)
    with l False show ?thesis
      unfolding gradio_try_array [OF d] by (cases p) (auto simp del: One_nat_def)
  qed
qed

lemma gradio_no_payload:
  assumes "gradioPayload rt r = None" and "parseGradioClientResponse_try rt cfg r = Inr out"
  shows "\<not> isBlocked out \<and> reason out \<in> {PARSE_ERROR, UNEXPECTED_RESPONSE}"
proof -
  consider d where "dataOf r = JArr d \<or> (\<not> isArray (dataOf r) \<and> r = JArr d)"
    | "\<not> isArray (dataOf r) \<and> \<not> isArray r"
    using gradio_cases [of r] by blast
  then show ?thesis
  proof cases
    case 1
    have g: "(if length d < 2 \<or> \<not> truthy (d ! 1) then None
      else (case d ! 1 of
              JStr str \<Rightarrow> (case JSON_parse rt str of Inl e \<Rightarrow> None | Inr v \<Rightarrow> Some v)
            | v \<Rightarrow> Some v)) = None"
      using gradioPayload_array [OF 1, of rt] assms(1) by simp
    show ?thesis
    proof (cases "length d < 2 \<or> \<not> truthy (d ! 1)")
      case True
      with assms(2) show ?thesis
        unfolding gradio_try_array [OF 1]
        by (auto simp: unexpectedResponse_def simp del: One_nat_def split: if_splits)
    next
      case False
      with g obtain str e where "d ! 1 = JStr str" "JSON_parse rt str = Inl e"
        by (cases "d ! 1") (auto simp del: One_nat_def split: sum.splits)
      with False assms(2) show ?thesis
        unfolding gradio_try_array [OF 1]
        by (auto simp del: One_nat_def)
    qed
  next
    case 2
    with assms(2) have "out = unexpectedResponse r"
      using gradio_try_no_array by blast
    then show ?thesis by (simp add: unexpectedResponse_def)
  qed
qed

lemma gradio_failure:
  assumes "case gradioPayload rt r of None \<Rightarrow> True | Some d \<Rightarrow> scoresObject d = None"
    and "parseGradioClientResponse rt cfg r = Inr out"
  shows "\<not> isBlocked out \<and> reason out \<in> {PARSE_ERROR, UNEXPECTED_RESPONSE}"
proof (cases "parseGradioClientResponse_try rt cfg r")
  case (Inl e)
  with assms(2) show ?thesis
    by (auto simp: parseGradioClientResponse_def split: sum.splits)
next
  case (Inr o1)
  with assms(2) have eq: "o1 = out" by (simp add: parseGradioClientResponse_def)
  show ?thesis
  proof (cases "gradioPayload rt r")
    case None
    from gradio_no_payload [OF None Inr] eq show ?thesis by simp
  next
    case (Some d)
    with assms(1) have "scoresObject d = None" by simp
    moreover have "parseModerationResponse rt cfg d = Inr out"
      using gradio_payload [OF Some, of cfg] Inr eq by simp
    ultimately have "out = unexpectedResponse d" by (rule parse_no_scores)
    then show ?thesis by (simp add: unexpectedResponse_def)
  qed
qed

lemma moderateText_outcome:
  "\<exists>out. moderateText rt cfg up txt = Inr out \<and>
     (\<forall>s. txt = JStr s \<and> trim s \<noteq> [] \<and> upstreamFailure rt cfg up s \<longrightarrow>
        \<not> isBlocked out \<and> reason out \<in> {API_ERROR, PARSE_ERROR, UNEXPECTED_RESPONSE})"
proof (cases "\<exists>s. txt = JStr s \<and> trim s \<noteq> []")
  case False
  then show ?thesis
    by (cases "txt") (auto simp: moderateText_def split: sum.splits)
next
  case True
  then obtain s where s: "txt = JStr s" "trim s \<noteq> []" by blast
  then have ne: "s \<noteq> []" by (auto simp: trim_def)
  show ?thesis
  proof (cases "moderateText_try rt cfg up s")
    case (Inl e)
    then have "moderateText rt cfg up txt = Inr (apiError e)"
      using s ne by (simp add: moderateText_def)
    then show ?thesis by (simp add: apiError_def)
  next
    case (Inr out)
    then have m: "moderateText rt cfg up txt = Inr out"
      using s ne by (simp add: moderateText_def)
    have "\<not> isBlocked out \<and> reason out \<in> {API_ERROR, PARSE_ERROR, UNEXPECTED_RESPONSE}"
      if f: "upstreamFailure rt cfg up s"
    proof (cases "isSpaceAPI cfg")
      case True
      with Inr obtain r where r: "gradio_connect up = None"
        "gradio_predict up s (saferValue cfg) = Inr r"
        "parseGradioClientResponse rt cfg r = Inr out"
        by (auto simp: moderateText_try_def split: option.splits sum.splits)
      with f True have "case gradioPayload rt r of None \<Rightarrow> True | Some d \<Rightarrow> scoresObject d = None"
        by (simp add: upstreamFailure_def)
      from gradio_failure [OF this r(3)] show ?thesis by simp
    next
      case False
      with Inr obtain d where d: "axios_post up s = Inr d"
        "parseModerationResponse rt cfg d = Inr out"
        by (auto simp: moderateText_try_def split: sum.splits)
      with f False have "scoresObject d = None" by (simp add: upstreamFailure_def)
      from parse_no_scores [OF this d(2)] show ?thesis
        by (simp add: unexpectedResponse_def)
    qed
    with m s show ?thesis by auto
  qed
qed

lemma handleMessage_allowed:
  assumes "socketUsername s sid = Some name" and "name \<noteq> []"
    and "truthy data" and "propOf data ''text'' = JStr raw"
    and "stripTags rt (trim raw) = messageText"
    and "messageText \<noteq> []" and "length messageText \<le> 1000"
    and "fst (checkRateLimit cfg (e_check ev) sid (rateLimitMap s))"
    and "e_moderate ev messageText = Inr out" and "\<not> isBlocked out"
  shows "broadcasts (snd (handleMessage rt cfg ev sid data s)) =
           [\<lparr> m_id = userMessageId sid (e_id ev), m_text = messageText, m_author = name,
              m_timestamp = e_stamp ev, m_moderationStatus = Some (reason out),
              m_details = Some (details out), m_isAI = False \<rparr>]"
  using assms by (simp add: handleMessage_def Let_def)

text \<open>
  C2. \<open>moderateText\<close> returns an outcome for every input, and whenever the upstream
  fails for a non-blank message (the call is rejected, the response carries no payload,
  or the payload does not normalize to an object of scores) the outcome is not blocked and
  its reason is \<open>API_ERROR\<close>, \<open>PARSE_ERROR\<close> or \<open>UNEXPECTED_RESPONSE\<close>. A message
  handler whose classifier is \<open>moderateText\<close> then broadcasts the message of a
  registered connection that is within its length and rate limits.
\<close>

theorem moderateText_degrades_open:
  "(\<exists>out. moderateText rt cfg up input = Inr out \<and>
     (\<forall>msg. input = JStr msg \<and> trim msg \<noteq> [] \<and> upstreamFailure rt cfg up msg \<longrightarrow>
        \<not> isBlocked out \<and> reason out \<in> {API_ERROR, PARSE_ERROR, UNEXPECTED_RESPONSE}))
   \<and> (\<forall>name raw msg.
        socketUsername s sid = Some name \<and> name \<noteq> [] \<and>
        truthy data \<and> propOf data ''text'' = JStr raw \<and> stripTags rt (trim raw) = msg \<and>
        trim msg \<noteq> [] \<and> length msg \<le> 1000 \<and>
        fst (checkRateLimit cfg (e_check ev) sid (rateLimitMap s)) \<and>
        e_moderate ev msg = moderateText rt cfg up (JStr msg) \<and>
        upstreamFailure rt cfg up msg \<longrightarrow>
        map m_text (broadcasts (snd (handleMessage rt cfg ev sid data s))) = [msg])"
proof (intro conjI allI impI)
  show "\<exists>out. moderateText rt cfg up input = Inr out \<and>
     (\<forall>msg. input = JStr msg \<and> trim msg \<noteq> [] \<and> upstreamFailure rt cfg up msg \<longrightarrow>
        \<not> isBlocked out \<and> reason out \<in> {API_ERROR, PARSE_ERROR, UNEXPECTED_RESPONSE})"
    by (rule moderateText_outcome)
next
  fix name raw msg
  assume a: "socketUsername s sid = Some name \<and> name \<noteq> [] \<and>
        truthy data \<and> propOf data ''text'' = JStr raw \<and> stripTags rt (trim raw) = msg \<and>
        trim msg \<noteq> [] \<and> length msg \<le> 1000 \<and>
        fst (checkRateLimit cfg (e_check ev) sid (rateLimitMap s)) \<and>
        e_moderate ev msg = moderateText rt cfg up (JStr msg) \<and>
        upstreamFailure rt cfg up msg"
  then have ne: "msg \<noteq> []" by (auto simp: trim_def)
  from moderateText_outcome [of rt cfg up "JStr msg"] a
  obtain out where o: "moderateText rt cfg up (JStr msg) = Inr out" "\<not> isBlocked out"
    by auto
  with a have "e_moderate ev msg = Inr out" by simp
  from handleMessage_allowed [OF _ _ _ _ _ ne _ _ this o(2), of s sid name data raw rt cfg] a
  show "map m_text (broadcasts (snd (handleMessage rt cfg ev sid data s))) = [msg]"
    by simp
qed

theorem moderateText_degrades_open_witness:
  "trim ''hello'' \<noteq> []
   \<and> upstreamFailure sampleRuntime defaultConfig failingUpstream ''hello''
   \<and> (\<exists>out. moderateText sampleRuntime defaultConfig failingUpstream (JStr ''hello'') = Inr out
          \<and> \<not> isBlocked out
          \<and> reason out \<in> {API_ERROR, PARSE_ERROR, UNEXPECTED_RESPONSE})
   \<and> socketUsername namedServer ''s1'' = Some ''Ann''
   \<and> truthy (textMessage ''hello'')
   \<and> propOf (textMessage ''hello'') ''text'' = JStr ''hello''
   \<and> stripTags sampleRuntime (trim ''hello'') = ''hello''
   \<and> fst (checkRateLimit defaultConfig (e_check (degradedEnv 1000)) ''s1''
            (rateLimitMap namedServer))
   \<and> e_moderate (degradedEnv 1000) ''hello''
       = moderateText sampleRuntime defaultConfig failingUpstream (JStr ''hello'')
   \<and> map m_text (broadcasts (snd (handleMessage sampleRuntime defaultConfig (degradedEnv 1000)
        ''s1'' (textMessage ''hello'') namedServer))) = [''hello'']"
proof -
  have t: "trim ''hello'' = ''hello''"
    by (simp add: trim_def isWhitespace_def)
  have h1: "trim ''hello'' \<noteq> []" by (simp add: t)
  have h2: "upstreamFailure sampleRuntime defaultConfig failingUpstream ''hello''"
    by (simp add: upstreamFailure_def failingUpstream_def)
  note T = moderateText_degrades_open [of sampleRuntime defaultConfig failingUpstream
      "JStr ''hello''" namedServer "''s1''" "textMessage ''hello''" "degradedEnv 1000"]
  from T obtain out where o: "moderateText sampleRuntime defaultConfig failingUpstream (JStr ''hello'')
      = Inr out"
    and imp: "\<forall>msg. JStr ''hello'' = JStr msg \<and> trim msg \<noteq> [] \<and>
        upstreamFailure sampleRuntime defaultConfig failingUpstream msg \<longrightarrow>
        \<not> isBlocked out \<and> reason out \<in> {API_ERROR, PARSE_ERROR, UNEXPECTED_RESPONSE}"
    by blast
  from imp h1 h2 have d: "\<not> isBlocked out \<and> reason out \<in> {API_ERROR, PARSE_ERROR, UNEXPECTED_RESPONSE}"
    by blast
  have n: "socketUsername namedServer ''s1'' = Some ''Ann''"
    by (simp add: namedServer_def)
  have x: "truthy (textMessage ''hello'')" "propOf (textMessage ''hello'') ''text'' = JStr ''hello''"
    by (simp_all add: textMessage_def propOf_def objectGet_def)
  have st: "stripTags sampleRuntime (trim ''hello'') = ''hello''"
    by (simp add: t sampleRuntime_def)
  have rl: "fst (checkRateLimit defaultConfig (e_check (degradedEnv 1000)) ''s1''
      (rateLimitMap namedServer))"
    by (simp add: checkRateLimit_def Let_def recorded_def namedServer_def initialServer_def
        defaultConfig_def)
  have em: "e_moderate (degradedEnv 1000) ''hello''
      = moderateText sampleRuntime defaultConfig failingUpstream (JStr ''hello'')"
    by (simp add: degradedEnv_def)
  have hyp: "socketUsername namedServer ''s1'' = Some ''Ann'' \<and> ''Ann'' \<noteq> [] \<and>
        truthy (textMessage ''hello'') \<and> propOf (textMessage ''hello'') ''text'' = JStr ''hello'' \<and>
        stripTags sampleRuntime (trim ''hello'') = ''hello'' \<and>
        trim ''hello'' \<noteq> [] \<and> length ''hello'' \<le> 1000 \<and>
        fst (checkRateLimit defaultConfig (e_check (degradedEnv 1000)) ''s1''
          (rateLimitMap namedServer)) \<and>
        e_moderate (degradedEnv 1000) ''hello''
          = moderateText sampleRuntime defaultConfig failingUpstream (JStr ''hello'') \<and>
        upstreamFailure sampleRuntime defaultConfig failingUpstream ''hello''"
    using n x st h1 rl em h2 by simp
  note B = T [THEN conjunct2, THEN spec, THEN spec, THEN spec, THEN mp, OF hyp]
  from o d have "\<exists>out. moderateText sampleRuntime defaultConfig failingUpstream (JStr ''hello'') = Inr out
          \<and> \<not> isBlocked out
          \<and> reason out \<in> {API_ERROR, PARSE_ERROR, UNEXPECTED_RESPONSE}"
    by blast
  with h1 h2 n x st rl em B show ?thesis by blast
qed

section \<open>The safer parameter\<close>

lemma saferValue_override:
  "moderation_saferValue cfg = Some v \<Longrightarrow> saferValue cfg = max 0.005 (min 0.1 v)"
  by (simp add: saferValue_def)

lemma saferValue_derived:
  "moderation_saferValue cfg = None \<Longrightarrow> moderation_threshold cfg \<noteq> 0 \<Longrightarrow>
     saferValue cfg = max 0.005 (min 0.1 (0.1 - moderation_threshold cfg * 0.095))"
  by (simp add: saferValue_def)

text \<open>
  C9. At a configured threshold of \<open>0\<close> with no override, the value sent upstream is
  \<open>0.0525\<close> (the value for threshold \<open>0.5\<close>), while
  \<open>0.1 - 0 * 0.095\<close> clamped to \<open>[0.005, 0.1]\<close> is \<open>0.1\<close>.
\<close>

theorem saferValue_threshold_zero:
  "saferValue (defaultConfig\<lparr>moderation_threshold := 0\<rparr>) = 0.0525
   \<and> max 0.005 (min 0.1 (0.1 - moderation_threshold (defaultConfig\<lparr>moderation_threshold := 0\<rparr>)
         * 0.095)) = (0.1 :: real)"
  by (simp add: saferValue_def defaultConfig_def)

section \<open>Sessions: registration before messages\<close>

lemma message_before_registration:
  assumes "socketUsername s sid = None"
  shows "handleMessage rt cfg ev sid data s
           = (s, [EmitError sid ''Please set your username first'' None])"
  using assms by (simp add: handleMessage_def)

lemma register_invalid:
  assumes "\<not> validName data"
  shows "registerUsername rt cfg ev sid data s
           = (s, [EmitError sid ''Username is required'' None])
       \<or> registerUsername rt cfg ev sid data s
           = (s, [EmitError sid ''Username must be between 1 and 20 characters'' None])"
proof (cases "truthy data \<and> truthy (propOf data ''username'')")
  case False
  then show ?thesis by (auto simp: registerUsername_def)
next
  case True
  show ?thesis
  proof (cases "propOf data ''username''")
    case (JStr name)
    with True assms have "trim name = [] \<or> length (trim name) > 20"
      by (cases "trim name") (auto simp: validName_def)
    with True JStr show ?thesis by (auto simp: registerUsername_def Let_def)
  qed (use True in \<open>simp_all add: registerUsername_def\<close>)
qed

lemma register_username_cases:
  "socketUsername (fst (registerUsername rt cfg ev sid data s)) =
     (if validName data
      then (socketUsername s)(sid \<mapsto> registeredName data)
      else socketUsername s)"
proof (cases "validName data")
  case False
  from register_invalid [OF this, of rt cfg ev sid s] False show ?thesis by auto
next
  case True
  then obtain name where n: "truthy data" "propOf data ''username'' = JStr name"
    "1 \<le> length (trim name)" "length (trim name) \<le> 20"
    by (auto simp: validName_def split: json.splits)
  then have "trim name \<noteq> []" "\<not> length (trim name) > 20"
    by auto
  moreover from this have "name \<noteq> []"
    by (auto simp: trim_def)
  ultimately have "name \<noteq> []" "trim name \<noteq> []" "\<not> length (trim name) > 20"
    by simp_all
  with n True show ?thesis
    by (simp add: registerUsername_def registeredName_def Let_def split: option.splits sum.splits)
qed

lemma message_username: "socketUsername (fst (handleMessage rt cfg ev sid data s)) = socketUsername s"
  by (simp add: handleMessage_def Let_def split: option.splits json.splits sum.splits)

lemma aiturn_username:
  "socketUsername (fst (generateAndBroadcastAIResponse rt cfg ev sid um mr b s)) = socketUsername s"
  by (simp add: generateAndBroadcastAIResponse_def Let_def split: sum.splits)

lemma step_unregistered:
  assumes "\<not> registers sid e" and "socketUsername s sid = None"
  shows "socketUsername (fst (step rt cfg e s)) sid = None"
  using assms
  by (cases e) (auto simp: register_username_cases message_username aiturn_username disconnect_def)

lemma runFrom_unregistered:
  assumes "\<forall>e\<in>set es. \<not> registers sid e" and "socketUsername s sid = None"
  shows "socketUsername (fst (runFrom rt cfg es s)) sid = None"
  using assms
proof (induction es arbitrary: s)
  case Nil
  then show ?case by simp
next
  case (Cons e es)
  have "socketUsername (fst (step rt cfg e s)) sid = None"
    using Cons.prems by (intro step_unregistered) auto
  with Cons show ?case by (simp add: Let_def)
qed

lemma step_namesValid:
  assumes "namesValid s"
  shows "namesValid (fst (step rt cfg e s))"
proof (cases e)
  case (Register sid data ev)
  show ?thesis
  proof (cases "validName data")
    case True
    then obtain name where n: "propOf data ''username'' = JStr name"
    "1 \<le> length (trim name)" "length (trim name) \<le> 20"
      by (auto simp: validName_def split: json.splits)
    with True assms Register show ?thesis
      by (auto simp: namesValid_def register_username_cases registeredName_def)
  next
    case False
    with assms Register show ?thesis
      by (auto simp: namesValid_def register_username_cases)
  qed
qed (use assms in \<open>auto simp: namesValid_def message_username aiturn_username disconnect_def\<close>)

lemma runFrom_namesValid:
  assumes "namesValid s"
  shows "namesValid (fst (runFrom rt cfg es s))"
  using assms
proof (induction es arbitrary: s)
  case Nil
  then show ?case by simp
next
  case (Cons e es)
  from Cons.IH [OF step_namesValid [OF Cons.prems]] show ?case by (simp add: Let_def)
qed

text \<open>
  C4. While no registration with a valid name (a string of 1 to 20 characters after
  trimming) has been handled for a connection, its \<open>socketUsername\<close> is unset and a
  \<open>message\<close> event only emits the error asking for a username: the state (rate
  windows, histories) is unchanged and nothing is classified or broadcast. Every name a
  run registers has 1 to 20 characters. A registration without a valid name (missing, not
  a string, empty after trimming, longer than 20) emits one error and changes nothing; a
  valid one sets the trimmed name.
\<close>

theorem no_message_before_registration:
  "((\<forall>e\<in>set es. \<not> registers sid e) \<longrightarrow>
      socketUsername (fst (run rt cfg es)) sid = None \<and>
      step rt cfg (Message sid data ev) (fst (run rt cfg es))
        = (fst (run rt cfg es), [EmitError sid ''Please set your username first'' None]))
   \<and> (socketUsername s sid = None \<longrightarrow>
      step rt cfg (Message sid data ev) s
        = (s, [EmitError sid ''Please set your username first'' None]))
   \<and> (\<forall>n. socketUsername (fst (run rt cfg es)) sid = Some n \<longrightarrow> 1 \<le> length n \<and> length n \<le> 20)
   \<and> (\<not> validName reg \<longrightarrow>
      step rt cfg (Register sid reg ev) s \<in>
        {(s, [EmitError sid ''Username is required'' None]),
         (s, [EmitError sid ''Username must be between 1 and 20 characters'' None])})
   \<and> (validName reg \<longrightarrow>
      socketUsername (fst (step rt cfg (Register sid reg ev) s)) sid = Some (registeredName reg))"
proof (intro conjI impI allI)
  assume a: "\<forall>e\<in>set es. \<not> registers sid e"
  have "socketUsername initialServer sid = None" by (simp add: initialServer_def)
  from runFrom_unregistered [OF a this]
  show u: "socketUsername (fst (run rt cfg es)) sid = None" by (simp add: run_def)
  show "step rt cfg (Message sid data ev) (fst (run rt cfg es))
        = (fst (run rt cfg es), [EmitError sid ''Please set your username first'' None])"
    using message_before_registration [OF u] by simp
next
  assume "socketUsername s sid = None"
  then show "step rt cfg (Message sid data ev) s
        = (s, [EmitError sid ''Please set your username first'' None])"
    using message_before_registration by simp
next
  fix n assume n: "socketUsername (fst (run rt cfg es)) sid = Some n"
  have "namesValid initialServer" by (simp add: namesValid_def initialServer_def)
  from runFrom_namesValid [OF this, of rt cfg es] n
  show "1 \<le> length n" and "length n \<le> 20" by (auto simp: namesValid_def run_def)
next
  assume "\<not> validName reg"
  from register_invalid [OF this, of rt cfg ev sid s]
  show "step rt cfg (Register sid reg ev) s \<in>
        {(s, [EmitError sid ''Username is required'' None]),
         (s, [EmitError sid ''Username must be between 1 and 20 characters'' None])}"
    by auto
next
  assume "validName reg"
  then show "socketUsername (fst (step rt cfg (Register sid reg ev) s)) sid
               = Some (registeredName reg)"
    by (simp add: register_username_cases)
qed

theorem no_message_before_registration_witness:
  "\<not> validName (registration ''   '')
   \<and> step sampleRuntime defaultConfig (Register ''s1'' (registration ''   '') (sampleEnv 1000))
        initialServer
       = (initialServer, [EmitError ''s1'' ''Username must be between 1 and 20 characters'' None])
   \<and> step sampleRuntime defaultConfig (Message ''s1'' (textMessage ''hi'') (sampleEnv 2000))
        (fst (run sampleRuntime defaultConfig
               [Connect ''s1'', Register ''s1'' (registration ''   '') (sampleEnv 1000)]))
       = (fst (run sampleRuntime defaultConfig
               [Connect ''s1'', Register ''s1'' (registration ''   '') (sampleEnv 1000)]),
          [EmitError ''s1'' ''Please set your username first'' None])
   \<and> validName (registration ''Ann'')
   \<and> socketUsername (fst (step sampleRuntime defaultConfig
        (Register ''s1'' (registration ''Ann'') (sampleEnv 1000)) initialServer)) ''s1'' = Some ''Ann''"
proof -
  let ?es = "[Connect ''s1'', Register ''s1'' (registration ''   '') (sampleEnv 1000)]"
  have nv: "\<not> validName (registration ''   '')"
    by (simp add: validName_def registration_def propOf_def objectGet_def trim_def isWhitespace_def)
  have v: "validName (registration ''Ann'')" and rn: "registeredName (registration ''Ann'') = ''Ann''"
    by (simp_all add: validName_def registeredName_def registration_def propOf_def objectGet_def
        trim_def isWhitespace_def)
  have none: "\<forall>e\<in>set ?es. \<not> registers ''s1'' e"
    using nv by simp
  note T = no_message_before_registration [of ?es "''s1''" sampleRuntime defaultConfig
      "textMessage ''hi''" "sampleEnv 2000" initialServer "registration ''   ''"]
  note T1 = T [THEN conjunct1, THEN mp, OF none, THEN conjunct2]
  note T4 = T [THEN conjunct2, THEN conjunct2, THEN conjunct2, THEN conjunct1, THEN mp, OF nv]
  note T5 = no_message_before_registration [of ?es "''s1''" sampleRuntime defaultConfig
      "textMessage ''hi''" "sampleEnv 1000" initialServer "registration ''Ann''",
      THEN conjunct2, THEN conjunct2, THEN conjunct2, THEN conjunct2, THEN mp, OF v]
  have r: "step sampleRuntime defaultConfig (Register ''s1'' (registration ''   '') (sampleEnv 1000))
        initialServer
       = (initialServer, [EmitError ''s1'' ''Username must be between 1 and 20 characters'' None])"
    by (simp add: registerUsername_def registration_def propOf_def objectGet_def trim_def
        isWhitespace_def)
  show ?thesis
    using nv r T1 T4 v T5 by (simp add: rn)
qed

section \<open>AI turns: greeting fallback and response post-processing\<close>

lemma register_provider_error:
  assumes "validName data" and "ai_enabled cfg"
    and "callOpenAIAPI cfg (e_provider ev) (greetingPrompt cfg (registeredName data)) = Inl err"
  shows "registerUsername rt cfg ev sid data s =
           (if passes ev (fallbackGreeting (registeredName data))
            then (s\<lparr>socketUsername := (socketUsername s)(sid \<mapsto> registeredName data),
                     conversationHistoryMap :=
                       addToConversationHistory cfg sid
                         (greetingMessageOf sid ev (fallbackGreeting (registeredName data)))
                         (conversationHistoryMap s)\<rparr>,
                  prompted cfg (greetingPrompt cfg (registeredName data))
                  @ [Classify (fallbackGreeting (registeredName data)),
                     EmitMessage sid
                       (greetingMessageOf sid ev (fallbackGreeting (registeredName data)))])
            else (s\<lparr>socketUsername := (socketUsername s)(sid \<mapsto> registeredName data)\<rparr>,
                  prompted cfg (greetingPrompt cfg (registeredName data))
                  @ [Classify (fallbackGreeting (registeredName data))]))"
proof -
  from assms(1) obtain name where n: "truthy data" "propOf data ''username'' = JStr name"
    "1 \<le> length (trim name)" "length (trim name) \<le> 20"
    by (auto simp: validName_def split: json.splits)
  then have t: "trim name \<noteq> []" "\<not> length (trim name) > 20" by auto
  then have ne: "name \<noteq> []" by (auto simp: trim_def)
  have r: "registeredName data = trim name" by (simp add: registeredName_def n)
  have g: "generateGreeting rt cfg (e_provider ev) (trim name) = Some (fallbackGreeting (trim name))"
    using assms(2,3) by (simp add: generateGreeting_def r)
  have f: "fallbackGreeting (trim name) \<noteq> []" by (simp add: fallbackGreeting_def)
  show ?thesis
    using n t ne g f assms(2)
    by (simp add: registerUsername_def Let_def r passes_def split: sum.splits)
qed

text \<open>
  C5, as the code has it. When the greeting's provider call raises for a registration with a
  valid name, \<open>generateGreeting\<close> returns the fixed fallback greeting instead of raising:
  the handler registers the name, classifies the fallback and, unless the classifier
  blocks it or fails, appends it to the connection's history and emits it as a greeting
  to the registering connection only; no error is emitted.
\<close>

theorem greeting_fallback_on_provider_error:
  assumes "validName data" and "ai_enabled cfg"
    and "callOpenAIAPI cfg (e_provider ev) (greetingPrompt cfg (registeredName data)) = Inl err"
  shows "step rt cfg (Register sid data ev) s =
           (if passes ev (fallbackGreeting (registeredName data))
            then (s\<lparr>socketUsername := (socketUsername s)(sid \<mapsto> registeredName data),
                     conversationHistoryMap :=
                       addToConversationHistory cfg sid
                         (greetingMessageOf sid ev (fallbackGreeting (registeredName data)))
                         (conversationHistoryMap s)\<rparr>,
                  prompted cfg (greetingPrompt cfg (registeredName data))
                  @ [Classify (fallbackGreeting (registeredName data)),
                     EmitMessage sid
                       (greetingMessageOf sid ev (fallbackGreeting (registeredName data)))])
            else (s\<lparr>socketUsername := (socketUsername s)(sid \<mapsto> registeredName data)\<rparr>,
                  prompted cfg (greetingPrompt cfg (registeredName data))
                  @ [Classify (fallbackGreeting (registeredName data))]))"
  using register_provider_error [OF assms] by simp

lemma sample_registration:
  "validName (registration ''Bo'')" "registeredName (registration ''Bo'') = ''Bo''"
  by (simp_all add: validName_def registeredName_def registration_def propOf_def objectGet_def
      trim_def isWhitespace_def)

lemma sample_provider_down:
  "callOpenAIAPI defaultConfig (e_provider (sampleEnv t)) msgs
     = Inl (Error ''OpenAI service request timed out. Please try again.'')"
  by (simp add: callOpenAIAPI_def defaultConfig_def sampleEnv_def)

lemma sample_greeting_id: "greetingId ''s1'' 1000 = ''ai-greeting-s1-1000''"
  by (simp add: greetingId_def showInt_def showNat.simps digit_def)

text \<open>
  The provider times out for Bo's registration, and the fallback greeting is delivered.
\<close>

theorem greeting_delivered_despite_provider_error:
  "e_provider (sampleEnv 1000) (greetingPrompt defaultConfig ''Bo'')
     = Inl (Error ''OpenAI service request timed out. Please try again.'')
   \<and> unicasts ''s1''
        (snd (step sampleRuntime defaultConfig (Register ''s1'' (registration ''Bo'') (sampleEnv 1000))
               initialServer))
       = [\<lparr> m_id = ''ai-greeting-s1-1000'',
            m_text = fallbackGreeting ''Bo'',
            m_author = ''AI Moderator'',
            m_timestamp = 1000,
            m_moderationStatus = None,
            m_details = None,
            m_isAI = True \<rparr>]"
proof -
  have p: "passes (sampleEnv 1000) (fallbackGreeting ''Bo'')"
    by (simp add: passes_def sampleEnv_def okOutcome_def)
  have en: "ai_enabled defaultConfig" by (simp add: defaultConfig_def)
  have "snd (registerUsername sampleRuntime defaultConfig (sampleEnv 1000) ''s1''
          (registration ''Bo'') initialServer) =
        prompted defaultConfig (greetingPrompt defaultConfig ''Bo'')
        @ [Classify (fallbackGreeting ''Bo''),
           EmitMessage ''s1'' (greetingMessageOf ''s1'' (sampleEnv 1000) (fallbackGreeting ''Bo''))]"
    using register_provider_error [OF sample_registration(1) en sample_provider_down [of 1000],
        of sampleRuntime "''s1''" initialServer] p
    by (simp add: sample_registration(2))
  then show ?thesis
    by (simp add: prompted_def greetingMessageOf_def AI_AUTHOR_NAME_def sampleEnv_def
        sample_greeting_id)
qed

theorem greeting_fallback_on_provider_error_witness:
  "validName (registration ''Bo'') \<and> ai_enabled defaultConfig
   \<and> callOpenAIAPI defaultConfig (e_provider (sampleEnv 1000))
        (greetingPrompt defaultConfig (registeredName (registration ''Bo'')))
       = Inl (Error ''OpenAI service request timed out. Please try again.'')
   \<and> passes (sampleEnv 1000) (fallbackGreeting ''Bo'')
   \<and> step sampleRuntime defaultConfig (Register ''s1'' (registration ''Bo'') (sampleEnv 1000))
        initialServer
       = (initialServer
            \<lparr>socketUsername := [''s1'' \<mapsto> ''Bo''],
             conversationHistoryMap :=
               [''s1'' \<mapsto> [\<lparr> h_author = ''AI Moderator'', h_text = fallbackGreeting ''Bo'',
                                 h_timestamp = 1000 \<rparr>]]\<rparr>,
          [Prompted (greetingPrompt defaultConfig ''Bo''),
           Classify (fallbackGreeting ''Bo''),
           EmitMessage ''s1'' (greetingMessageOf ''s1'' (sampleEnv 1000) (fallbackGreeting ''Bo''))])"
proof -
  have en: "ai_enabled defaultConfig" by (simp add: defaultConfig_def)
  have p: "passes (sampleEnv 1000) (fallbackGreeting ''Bo'')"
    by (simp add: passes_def sampleEnv_def okOutcome_def)
  have k: "ai_apiKey defaultConfig \<noteq> []" "ai_conversationHistorySize defaultConfig = 5"
    by (simp_all add: defaultConfig_def)
  have h: "addToConversationHistory defaultConfig ''s1''
      (greetingMessageOf ''s1'' (sampleEnv 1000) (fallbackGreeting ''Bo'')) Map.empty
      = [''s1'' \<mapsto> [\<lparr> h_author = ''AI Moderator'', h_text = fallbackGreeting ''Bo'',
                          h_timestamp = 1000 \<rparr>]]"
    by (simp add: addToConversationHistory_def getHistory_def entryOf_def greetingMessageOf_def
        AI_AUTHOR_NAME_def sampleEnv_def k Let_def)
  note T = greeting_fallback_on_provider_error [OF sample_registration(1) en
      sample_provider_down [of 1000], of sampleRuntime "''s1''" initialServer]
  show ?thesis
    using T p en sample_provider_down [of 1000] sample_registration
    by (simp add: prompted_def k h initialServer_def)
qed

lemma generate_parsed:
  assumes "ai_enabled cfg"
    and "callOpenAIAPI cfg provider (buildMessages cfg um mr h b) = Inr response"
    and "parseOpenAIResponse rt response = Inr (JStr aiText)"
  shows "generateAIResponse rt cfg provider um mr h b =
           (if int (length aiText) > ai_maxResponseLength cfg
            then Inr (trim (take (nat (ai_maxResponseLength cfg)) aiText) @ ''...'')
            else Inr (trim aiText))"
  using assms by (simp add: generateAIResponse_def Let_def)

lemma aiturn_silent_on_error:
  assumes "generateAIResponse rt cfg (e_provider ev) um mr
             (getHistory (conversationHistoryMap s) sid) b = Inl e"
  shows "broadcasts (snd (generateAndBroadcastAIResponse rt cfg ev sid um mr b s)) = []
       \<and> conversationHistoryMap (fst (generateAndBroadcastAIResponse rt cfg ev sid um mr b s))
           = conversationHistoryMap s"
  using assms by (simp add: generateAndBroadcastAIResponse_def Let_def prompted_def)

lemma aiturn_silent_on_blank:
  assumes "generateAIResponse rt cfg (e_provider ev) um mr
             (getHistory (conversationHistoryMap s) sid) b = Inr t"
    and "trim t = []"
  shows "broadcasts (snd (generateAndBroadcastAIResponse rt cfg ev sid um mr b s)) = []
       \<and> conversationHistoryMap (fst (generateAndBroadcastAIResponse rt cfg ev sid um mr b s))
           = conversationHistoryMap s"
  using assms by (simp add: generateAndBroadcastAIResponse_def Let_def prompted_def)

lemma parse_empty_completion:
  "parseOpenAIResponse rt (completion [])
     = Inl (Error ''Unable to parse OpenAI response. Unexpected response format.'')"
  by (simp add: parseOpenAIResponse_def completion_def propOf_def objectGet_def
      nonEmptyChoices_def firstOf_def nthOrUndefined_def Let_def)

lemma parse_completion:
  "reply \<noteq> [] \<Longrightarrow> parseOpenAIResponse rt (completion reply) = Inr (JStr reply)"
  by (simp add: parseOpenAIResponse_def completion_def propOf_def objectGet_def
      nonEmptyChoices_def firstOf_def nthOrUndefined_def Let_def)

text \<open>
  C8, as the code has it. For a provider response whose parsed content is the string
  \<open>aiText\<close>: when it is longer than the configured maximum, the text returned is its
  first \<open>maxLength\<close> characters with surrounding whitespace trimmed, followed by
  \<open>...\<close>; otherwise it is \<open>aiText\<close> trimmed. Whenever the text returned is
  empty or blank, and whenever \<open>generateAIResponse\<close> raises, nothing is broadcast and
  no history changes; an empty content makes the parsing raise.
\<close>

theorem ai_response_postprocessing:
  "(ai_enabled cfg \<and>
    callOpenAIAPI cfg (e_provider ev)
      (buildMessages cfg um mr (getHistory (conversationHistoryMap s) sid) b) = Inr response \<and>
    parseOpenAIResponse rt response = Inr (JStr aiText) \<longrightarrow>
      generateAIResponse rt cfg (e_provider ev) um mr (getHistory (conversationHistoryMap s) sid) b
        = (if int (length aiText) > ai_maxResponseLength cfg
           then Inr (trim (take (nat (ai_maxResponseLength cfg)) aiText) @ ''...'')
           else Inr (trim aiText)))
   \<and> (\<forall>t. generateAIResponse rt cfg (e_provider ev) um mr
             (getHistory (conversationHistoryMap s) sid) b = Inr t \<and> trim t = [] \<longrightarrow>
          broadcasts (snd (generateAndBroadcastAIResponse rt cfg ev sid um mr b s)) = [] \<and>
          conversationHistoryMap (fst (generateAndBroadcastAIResponse rt cfg ev sid um mr b s))
            = conversationHistoryMap s)
   \<and> (\<forall>e. generateAIResponse rt cfg (e_provider ev) um mr
             (getHistory (conversationHistoryMap s) sid) b = Inl e \<longrightarrow>
          broadcasts (snd (generateAndBroadcastAIResponse rt cfg ev sid um mr b s)) = [] \<and>
          conversationHistoryMap (fst (generateAndBroadcastAIResponse rt cfg ev sid um mr b s))
            = conversationHistoryMap s)
   \<and> parseOpenAIResponse rt (completion [])
        = Inl (Error ''Unable to parse OpenAI response. Unexpected response format.'')"
proof (intro conjI impI allI)
  assume "ai_enabled cfg \<and>
    callOpenAIAPI cfg (e_provider ev)
      (buildMessages cfg um mr (getHistory (conversationHistoryMap s) sid) b) = Inr response \<and>
    parseOpenAIResponse rt response = Inr (JStr aiText)"
  then show "generateAIResponse rt cfg (e_provider ev) um mr
        (getHistory (conversationHistoryMap s) sid) b
        = (if int (length aiText) > ai_maxResponseLength cfg
           then Inr (trim (take (nat (ai_maxResponseLength cfg)) aiText) @ ''...'')
           else Inr (trim aiText))"
    using generate_parsed by blast
next
  fix t
  assume "generateAIResponse rt cfg (e_provider ev) um mr
             (getHistory (conversationHistoryMap s) sid) b = Inr t \<and> trim t = []"
  then have g: "generateAIResponse rt cfg (e_provider ev) um mr
             (getHistory (conversationHistoryMap s) sid) b = Inr t" and t: "trim t = []"
    by simp_all
  from aiturn_silent_on_blank [OF g t]
  show "broadcasts (snd (generateAndBroadcastAIResponse rt cfg ev sid um mr b s)) = []"
    and "conversationHistoryMap (fst (generateAndBroadcastAIResponse rt cfg ev sid um mr b s))
             = conversationHistoryMap s"
    by simp_all
next
  fix e
  assume "generateAIResponse rt cfg (e_provider ev) um mr
             (getHistory (conversationHistoryMap s) sid) b = Inl e"
  from aiturn_silent_on_error [OF this]
  show "broadcasts (snd (generateAndBroadcastAIResponse rt cfg ev sid um mr b s)) = []"
    and "conversationHistoryMap (fst (generateAndBroadcastAIResponse rt cfg ev sid um mr b s))
             = conversationHistoryMap s"
    by simp_all
next
  show "parseOpenAIResponse rt (completion [])
        = Inl (Error ''Unable to parse OpenAI response. Unexpected response format.'')"
    by (rule parse_empty_completion)
qed

lemma sample_reply:
  "reply \<noteq> [] \<Longrightarrow>
   callOpenAIAPI (defaultConfig\<lparr>ai_maxResponseLength := n\<rparr>) (e_provider (replyingEnv t reply)) msgs
     = Inr (completion reply)"
  by (simp add: callOpenAIAPI_def defaultConfig_def replyingEnv_def)

text \<open>
  With a maximum of 5, the reply \<open>ab   cdef\<close> is delivered as \<open>ab...\<close>, not as its
  first five characters followed by the ellipsis.
\<close>

theorem truncated_reply_is_trimmed:
  "generateAIResponse sampleRuntime (defaultConfig\<lparr>ai_maxResponseLength := 5\<rparr>)
     (e_provider (replyingEnv 1000 ''ab   cdef'')) ''hi'' okOutcome [] False = Inr ''ab...''
   \<and> take 5 ''ab   cdef'' @ ''...'' = ''ab   ...''"
proof -
  have en: "ai_enabled (defaultConfig\<lparr>ai_maxResponseLength := 5\<rparr>)"
    by (simp add: defaultConfig_def)
  have r: "''ab   cdef'' \<noteq> []" by simp
  from generate_parsed [OF en sample_reply [OF r] parse_completion [OF r]]
  show ?thesis
    by (simp add: trim_def isWhitespace_def)
qed

text \<open>
  A blank reply longer than the maximum is not skipped: truncation turns it into
  \<open>...\<close>, which is classified and broadcast.
\<close>

lemma blank_overlong_reply_broadcast:
  "broadcasts (snd (generateAndBroadcastAIResponse sampleRuntime
      (defaultConfig\<lparr>ai_maxResponseLength := 2\<rparr>) (replyingEnv 1000 ''   '') ''s1'' ''hi''
      okOutcome False namedServer))
   = [\<lparr> m_id = ''ai-s1-1000'', m_text = ''...'', m_author = ''AI Moderator'',
        m_timestamp = 1000, m_moderationStatus = Some OK, m_details = Some NoDetails,
        m_isAI = True \<rparr>]"
proof -
  have en: "ai_enabled (defaultConfig\<lparr>ai_maxResponseLength := 2\<rparr>)"
    by (simp add: defaultConfig_def)
  have r: "''   '' \<noteq> []" by simp
  have g: "generateAIResponse sampleRuntime (defaultConfig\<lparr>ai_maxResponseLength := 2\<rparr>)
      (e_provider (replyingEnv 1000 ''   '')) ''hi'' mr h False = Inr ''...''" for mr h
    using generate_parsed [OF en sample_reply [OF r] parse_completion [OF r]]
    by (simp add: trim_def isWhitespace_def)
  have rl: "checkAIRateLimit 1000 ''s1'' Map.empty = (True, [''s1'' \<mapsto> [1000]])"
    by (simp add: checkAIRateLimit_def recorded_def Let_def)
  have i: "aiMessageId ''s1'' 1000 = ''ai-s1-1000''"
    by (simp add: aiMessageId_def showInt_def showNat.simps digit_def)
  have f: "e_check (replyingEnv 1000 ''   '') = 1000" "e_id (replyingEnv 1000 ''   '') = 1000"
    "e_stamp (replyingEnv 1000 ''   '') = 1000"
    "e_moderate (replyingEnv 1000 ''   '') ''...'' = Inr okOutcome"
    by (simp_all add: replyingEnv_def sampleEnv_def)
  show ?thesis
    by (simp add: generateAndBroadcastAIResponse_def Let_def g en namedServer_def
        initialServer_def rl f okOutcome_def i trim_def
        isWhitespace_def prompted_def AI_AUTHOR_NAME_def)
qed

theorem ai_response_postprocessing_witness:
  "ai_enabled (defaultConfig\<lparr>ai_maxResponseLength := 5\<rparr>)
   \<and> callOpenAIAPI (defaultConfig\<lparr>ai_maxResponseLength := 5\<rparr>)
        (e_provider (replyingEnv 1000 ''ab   cdef''))
        (buildMessages (defaultConfig\<lparr>ai_maxResponseLength := 5\<rparr>) ''hi'' okOutcome
           (getHistory (conversationHistoryMap namedServer) ''s1'') False)
       = Inr (completion ''ab   cdef'')
   \<and> parseOpenAIResponse sampleRuntime (completion ''ab   cdef'') = Inr (JStr ''ab   cdef'')
   \<and> generateAIResponse sampleRuntime (defaultConfig\<lparr>ai_maxResponseLength := 5\<rparr>)
        (e_provider (replyingEnv 1000 ''ab   cdef'')) ''hi'' okOutcome
        (getHistory (conversationHistoryMap namedServer) ''s1'') False = Inr ''ab...''
   \<and> generateAIResponse sampleRuntime (defaultConfig\<lparr>ai_maxResponseLength := 5\<rparr>)
        (e_provider (replyingEnv 1000 ''  '')) ''hi'' okOutcome
        (getHistory (conversationHistoryMap namedServer) ''s1'') False = Inr []
   \<and> trim [] = ([] :: string)
   \<and> broadcasts (snd (generateAndBroadcastAIResponse sampleRuntime
        (defaultConfig\<lparr>ai_maxResponseLength := 5\<rparr>) (replyingEnv 1000 ''  '') ''s1'' ''hi''
        okOutcome False namedServer)) = []
   \<and> generateAIResponse sampleRuntime (defaultConfig\<lparr>ai_maxResponseLength := 5\<rparr>)
        (e_provider (sampleEnv 1000)) ''hi'' okOutcome
        (getHistory (conversationHistoryMap namedServer) ''s1'') False
       = Inl (Error ''OpenAI service request timed out. Please try again.'')
   \<and> broadcasts (snd (generateAndBroadcastAIResponse sampleRuntime
        (defaultConfig\<lparr>ai_maxResponseLength := 5\<rparr>) (sampleEnv 1000) ''s1'' ''hi''
        okOutcome False namedServer)) = []"
proof -
  let ?cfg = "defaultConfig\<lparr>ai_maxResponseLength := 5\<rparr>"
  let ?h = "getHistory (conversationHistoryMap namedServer) ''s1''"
  have en: "ai_enabled ?cfg" by (simp add: defaultConfig_def)
  have r1: "''ab   cdef'' \<noteq> []" and r2: "''  '' \<noteq> []" by simp_all
  have t0: "trim [] = ([] :: string)" by (simp add: trim_def)
  have e3: "generateAIResponse sampleRuntime ?cfg (e_provider (sampleEnv 1000)) ''hi'' okOutcome
      ?h False = Inl (Error ''OpenAI service request timed out. Please try again.'')"
    by (simp add: generateAIResponse_def callOpenAIAPI_def defaultConfig_def sampleEnv_def)
  note A = ai_response_postprocessing [of ?cfg "replyingEnv 1000 ''ab   cdef''" "''hi''" okOutcome
      namedServer "''s1''" False "completion ''ab   cdef''" sampleRuntime "''ab   cdef''",
      THEN conjunct1, THEN mp,
      OF conjI [OF en conjI [OF sample_reply [OF r1] parse_completion [OF r1]]]]
  from A have a: "generateAIResponse sampleRuntime ?cfg (e_provider (replyingEnv 1000 ''ab   cdef''))
      ''hi'' okOutcome ?h False = Inr ''ab...''"
    by (simp add: trim_def isWhitespace_def)
  have c: "generateAIResponse sampleRuntime ?cfg (e_provider (replyingEnv 1000 ''  ''))
      ''hi'' okOutcome ?h False = Inr []"
    using ai_response_postprocessing [of ?cfg "replyingEnv 1000 ''  ''" "''hi''" okOutcome
      namedServer "''s1''" False "completion ''  ''" sampleRuntime "''  ''",
      THEN conjunct1, THEN mp,
      OF conjI [OF en conjI [OF sample_reply [OF r2] parse_completion [OF r2]]]]
    by (simp add: trim_def isWhitespace_def)
  note C = ai_response_postprocessing [of ?cfg "replyingEnv 1000 ''  ''" "''hi''" okOutcome
      namedServer "''s1''" False _ sampleRuntime,
      THEN conjunct2, THEN conjunct1, THEN spec, THEN mp, OF conjI [OF c t0], THEN conjunct1]
  note B = ai_response_postprocessing [of ?cfg "sampleEnv 1000" "''hi''" okOutcome
      namedServer "''s1''" False _ sampleRuntime,
      THEN conjunct2, THEN conjunct2, THEN conjunct1, THEN spec, THEN mp, OF e3, THEN conjunct1]
  show ?thesis
    using en sample_reply [OF r1] parse_completion [OF r1] a c t0 C e3 B by simp
qed

section \<open>Message ids\<close>

lemma digit_inj: "a < 10 \<Longrightarrow> b < 10 \<Longrightarrow> digit a = digit b \<Longrightarrow> a = b"
proof -
  assume "a < 10" "b < 10" "digit a = digit b"
  moreover have "distinct ''0123456789''" by simp
  ultimately show ?thesis
    by (simp add: digit_def nth_eq_iff_index_eq)
qed

lemma digit_not_dash: "d < 10 \<Longrightarrow> digit d \<noteq> CHR ''-''"
proof -
  assume "d < 10"
  then have "digit d \<in> set ''0123456789''" unfolding digit_def by (intro nth_mem) simp
  then show ?thesis by auto
qed

lemma showNat_nonempty: "showNat n \<noteq> []"
  by (subst showNat.simps) simp

lemma showNat_no_dash: "CHR ''-'' \<notin> set (showNat n)"
proof (induction n rule: showNat.induct)
  case (1 n)
  show ?case
  proof (cases "n < 10")
    case True
    then show ?thesis using digit_not_dash [of n] by (subst showNat.simps) auto
  next
    case False
    then show ?thesis
      using 1 digit_not_dash [of "n mod 10"] by (subst showNat.simps) auto
  qed
qed

lemma showNat_inj: "showNat m = showNat n \<Longrightarrow> m = n"
proof (induction m arbitrary: n rule: showNat.induct)
  case (1 m)
  show ?case
  proof (cases "m < 10")
    case True
    then have m: "showNat m = [digit m]" by (subst showNat.simps) simp
    have n10: "n < 10"
    proof (rule ccontr)
      assume "\<not> n < 10"
      then have "showNat n = showNat (n div 10) @ [digit (n mod 10)]"
        by (subst showNat.simps) simp
      with m "1.prems" showNat_nonempty [of "n div 10"] show False by simp
    qed
    then have "showNat n = [digit n]" by (subst showNat.simps) simp
    with m "1.prems" True n10 show ?thesis using digit_inj by simp
  next
    case False
    then have m: "showNat m = showNat (m div 10) @ [digit (m mod 10)]"
      by (subst showNat.simps) simp
    have n10: "\<not> n < 10"
    proof
      assume "n < 10"
      then have "showNat n = [digit n]" by (subst showNat.simps) simp
      with m "1.prems" showNat_nonempty [of "m div 10"] show False by simp
    qed
    then have n: "showNat n = showNat (n div 10) @ [digit (n mod 10)]"
      by (subst showNat.simps) simp
    from m n "1.prems" have a: "showNat (m div 10) = showNat (n div 10)"
      and b: "digit (m mod 10) = digit (n mod 10)" by simp_all
    from "1.IH" [OF False a] have "m div 10 = n div 10" .
    moreover from b have "m mod 10 = n mod 10" using digit_inj by simp
    ultimately show ?thesis by (metis div_mult_mod_eq)
  qed
qed

lemma split_at_last:
  assumes "c \<notin> set ys" and "c \<notin> set ys'" and "xs @ c # ys = xs' @ c # ys'"
  shows "xs = xs' \<and> ys = ys'"
proof -
  from assms(3) have "rev ys @ c # rev xs = rev ys' @ c # rev xs'"
    by (metis rev_append rev.simps(2) append_assoc append_Cons append_Nil)
  moreover have "takeWhile (\<lambda>x. x \<noteq> c) (rev ys @ c # rev xs) = rev ys"
    using assms(1) by (auto simp: takeWhile_tail)
  moreover have "takeWhile (\<lambda>x. x \<noteq> c) (rev ys' @ c # rev xs') = rev ys'"
    using assms(2) by (auto simp: takeWhile_tail)
  ultimately have "rev ys = rev ys'" by simp
  then have "ys = ys'" by simp
  with assms(3) show ?thesis by simp
qed

lemma message_id_injective:
  assumes "0 \<le> t1" and "0 \<le> t2"
  shows "userMessageId sid1 t1 = userMessageId sid2 t2 \<longleftrightarrow> sid1 = sid2 \<and> t1 = t2"
proof
  assume eq: "userMessageId sid1 t1 = userMessageId sid2 t2"
  from assms have s: "showInt t1 = showNat (nat t1)" "showInt t2 = showNat (nat t2)"
    by (simp_all add: showInt_def)
  from eq have "sid1 @ CHR ''-'' # showNat (nat t1) = sid2 @ CHR ''-'' # showNat (nat t2)"
    by (simp add: userMessageId_def s)
  from split_at_last [OF showNat_no_dash showNat_no_dash this]
  have "sid1 = sid2" "showNat (nat t1) = showNat (nat t2)" by simp_all
  moreover from this have "nat t1 = nat t2" by (intro showNat_inj)
  ultimately show "sid1 = sid2 \<and> t1 = t2" using assms by simp
qed simp

section \<open>Histories hold only texts that passed moderation\<close>

lemma history_add_subset:
  "set (getHistory (addToConversationHistory cfg sid' md m) sid)
     \<subseteq> set (getHistory m sid) \<union> {entryOf md}"
proof (cases "sid = sid'")
  case True
  have "set (tl xs) \<subseteq> set xs" for xs :: "historyEntry list" by (cases xs) auto
  from this [of "getHistory m sid' @ [entryOf md]"] True show ?thesis
    by (auto simp: addToConversationHistory_def Let_def getHistory_def)
next
  case False
  then show ?thesis
    by (auto simp: addToConversationHistory_def Let_def getHistory_def)
qed

lemma appendedI:
  "passes ev (m_text md) \<Longrightarrow> appended cfg ev sid m (addToConversationHistory cfg sid md m)"
  unfolding appended_def by blast

lemma appended_refl: "appended cfg ev sid m m"
  unfolding appended_def by simp

lemma greetingMessageOf_text: "m_text (greetingMessageOf sid ev g) = g"
  by (simp add: greetingMessageOf_def)

lemma register_history:
  "appended cfg ev sid (conversationHistoryMap s)
     (conversationHistoryMap (fst (registerUsername rt cfg ev sid data s)))"
  by (simp add: registerUsername_def Let_def appended_refl appendedI [where md = "greetingMessageOf sid ev g" for g]
      passes_def greetingMessageOf_text split: json.splits option.splits sum.splits)

lemma message_history:
  "appended cfg ev sid (conversationHistoryMap s)
     (conversationHistoryMap (fst (handleMessage rt cfg ev sid data s)))"
  by (simp add: handleMessage_def Let_def appended_refl appendedI passes_def
      split: json.splits option.splits sum.splits)

lemma aiturn_history:
  "appended cfg ev sid (conversationHistoryMap s)
     (conversationHistoryMap (fst (generateAndBroadcastAIResponse rt cfg ev sid um mr b s)))"
  by (simp add: generateAndBroadcastAIResponse_def Let_def appended_refl appendedI passes_def
      split: json.splits option.splits sum.splits)

lemma appended_member:
  assumes "appended cfg ev sid' m m'" and "e \<in> set (getHistory m' sid)"
  shows "e \<in> set (getHistory m sid) \<or> passes ev (h_text e)"
  using assms history_add_subset [of cfg sid' _ m sid]
  by (fastforce simp: appended_def entryOf_def)

lemma step_history:
  assumes "e \<in> set (getHistory (conversationHistoryMap (fst (step rt cfg x s))) sid)"
  shows "e \<in> set (getHistory (conversationHistoryMap s) sid) \<or> accepts x (h_text e)"
proof (cases x)
  case (Connect sid')
  with assms show ?thesis by simp
next
  case (Register sid' data ev)
  with assms appended_member [OF register_history] show ?thesis by fastforce
next
  case (Message sid' data ev)
  with assms appended_member [OF message_history] show ?thesis by fastforce
next
  case (AITurn sid' um mr b ev)
  with assms appended_member [OF aiturn_history] show ?thesis by fastforce
next
  case (Disconnect sid')
  with assms show ?thesis
    by (cases "sid = sid'") (simp_all add: disconnect_def getHistory_def)
qed

lemma set_sliceLast: "set (sliceLast n xs) \<subseteq> set xs"
  by (auto simp: sliceLast_def dest: in_set_dropD)

lemma historyTurns_greeting: "historyTurns (greetingPrompt cfg username) = []"
  by (simp add: historyTurns_def greetingPrompt_def)

lemma historyTurns_build:
  "historyTurns (buildMessages cfg um mr h b)
     = map (\<lambda>msg. Text (h_text msg)) (sliceLast (ai_conversationHistorySize cfg) h)"
  by (simp add: historyTurns_def buildMessages_def butlast_append comp_def if_distrib
      cong: if_cong)

lemma turns_from_history:
  assumes "c \<in> set (historyTurns (buildMessages cfg um mr h b))"
  shows "\<exists>e\<in>set h. c = Text (h_text e)"
  using assms set_sliceLast [of "ai_conversationHistorySize cfg" h]
  by (auto simp: historyTurns_build)

lemma register_prompted:
  assumes "Prompted msgs \<in> set (snd (registerUsername rt cfg ev sid data s))"
  shows "historyTurns msgs = []"
  using assms
  by (auto simp: registerUsername_def Let_def prompted_def historyTurns_greeting
      split: json.splits option.splits sum.splits if_splits)

lemma message_prompted:
  "Prompted msgs \<notin> set (snd (handleMessage rt cfg ev sid data s))"
  by (auto simp: handleMessage_def Let_def
      split: json.splits option.splits sum.splits if_splits)

lemma aiturn_prompted:
  assumes "Prompted msgs \<in> set (snd (generateAndBroadcastAIResponse rt cfg ev sid um mr b s))"
  shows "msgs = buildMessages cfg um mr (getHistory (conversationHistoryMap s) sid) b"
  using assms
  by (auto simp: generateAndBroadcastAIResponse_def Let_def prompted_def
      split: json.splits option.splits sum.splits if_splits)

lemma step_prompted:
  assumes "Prompted msgs \<in> set (snd (step rt cfg x s))" and "c \<in> set (historyTurns msgs)"
  shows "\<exists>sid. \<exists>e\<in>set (getHistory (conversationHistoryMap s) sid). c = Text (h_text e)"
proof (cases x)
  case (Register sid data ev)
  with assms register_prompted show ?thesis by fastforce
next
  case (Message sid data ev)
  with assms message_prompted show ?thesis by fastforce
next
  case (AITurn sid um mr b ev)
  with assms aiturn_prompted [of msgs rt cfg ev sid um mr b s] turns_from_history
  show ?thesis by fastforce
qed (use assms in simp_all)

lemma runFrom_inv:
  assumes "\<And>sid e. e \<in> set (getHistory (conversationHistoryMap s) sid) \<Longrightarrow> A (h_text e)"
    and "\<And>x t. x \<in> set es \<Longrightarrow> accepts x t \<Longrightarrow> A t"
  shows "(\<forall>sid e. e \<in> set (getHistory (conversationHistoryMap (fst (runFrom rt cfg es s))) sid)
            \<longrightarrow> A (h_text e))
       \<and> (\<forall>msgs c. Prompted msgs \<in> set (snd (runFrom rt cfg es s)) \<longrightarrow>
            c \<in> set (historyTurns msgs) \<longrightarrow> (\<exists>t. c = Text t \<and> A t))"
  using assms
proof (induction es arbitrary: s)
  case Nil
  then show ?case by simp
next
  case (Cons x es)
  let ?s1 = "fst (step rt cfg x s)"
  have inv1: "A (h_text e)" if "e \<in> set (getHistory (conversationHistoryMap ?s1) sid)" for sid e
    using step_history [OF that] Cons.prems(1) Cons.prems(2) [of x] by auto
  have acc: "A t" if "y \<in> set es" "accepts y t" for y t
    using that Cons.prems(2) [of y t] by simp
  note IH = Cons.IH [of ?s1, OF inv1 acc]
  have here: "\<exists>t. c = Text t \<and> A t"
    if "Prompted msgs \<in> set (snd (step rt cfg x s))" "c \<in> set (historyTurns msgs)" for msgs c
    using step_prompted [OF that] Cons.prems(1) by blast
  show ?case
    using IH here by (auto simp: Let_def)
qed

lemma blocked_message_keeps_history:
  assumes "truthy data" and "propOf data ''text'' = JStr raw"
    and "\<not> passes ev (stripTags rt (trim raw))"
  shows "conversationHistoryMap (fst (handleMessage rt cfg ev sid data s))
           = conversationHistoryMap s"
  using assms
  by (simp add: handleMessage_def Let_def passes_def split: option.splits sum.splits)

text \<open>
  C10. After any run of events from the initial state, every entry of every
  connection's history carries a text that the classifier consulted in one of the run's
  events let pass (user messages, AI replies and greetings are appended only after a
  non-blocking outcome); the history turns of every prompt sent to the provider are such
  texts; and a message the classifier does not let pass leaves every history as it was.
\<close>

theorem blocked_text_never_in_history:
  "(\<forall>sid e. e \<in> set (getHistory (conversationHistoryMap (fst (run rt cfg es))) sid) \<longrightarrow>
       (\<exists>x\<in>set es. accepts x (h_text e)))
   \<and> (\<forall>msgs c. Prompted msgs \<in> set (snd (run rt cfg es)) \<and> c \<in> set (historyTurns msgs) \<longrightarrow>
       (\<exists>t. c = Text t \<and> (\<exists>x\<in>set es. accepts x t)))
   \<and> (\<forall>raw. truthy data \<and> propOf data ''text'' = JStr raw \<and>
            \<not> passes ev (stripTags rt (trim raw)) \<longrightarrow>
       conversationHistoryMap (fst (step rt cfg (Message sid data ev) s))
         = conversationHistoryMap s)"
proof -
  let ?A = "\<lambda>t. \<exists>x\<in>set es. accepts x t"
  have init: "?A (h_text e)"
    if "e \<in> set (getHistory (conversationHistoryMap initialServer) sid)" for sid e
    using that by (simp add: initialServer_def getHistory_def)
  have acc: "?A t" if "x \<in> set es" "accepts x t" for x t
    using that by blast
  have "(\<forall>sid e. e \<in> set (getHistory (conversationHistoryMap
            (fst (runFrom rt cfg es initialServer))) sid) \<longrightarrow> ?A (h_text e))
       \<and> (\<forall>msgs c. Prompted msgs \<in> set (snd (runFrom rt cfg es initialServer)) \<longrightarrow>
            c \<in> set (historyTurns msgs) \<longrightarrow> (\<exists>t. c = Text t \<and> ?A t))"
    by (rule runFrom_inv [where A = ?A]) (fact init, fact acc)
  then show ?thesis
    unfolding run_def using blocked_message_keeps_history by auto
qed

section \<open>Ids and histories on sample runs\<close>

lemma handleMessage_ids:
  "sentIds (snd (handleMessage rt cfg ev sid data s)) \<in> {[], [userMessageId sid (e_id ev)]}"
  by (simp add: handleMessage_def Let_def split: option.splits json.splits sum.splits)

text \<open>
  C6, as the code has it. The id of a user message or block notice is the connection id, a
  dash and the decimal clock reading in milliseconds. For non-negative readings two such
  ids are equal exactly when the connection ids and the readings are equal: sends of
  different connections, or at different milliseconds, get different ids.
\<close>

theorem user_message_ids:
  assumes "0 \<le> t1" and "0 \<le> t2"
  shows "(userMessageId sid1 t1 = userMessageId sid2 t2 \<longleftrightarrow> sid1 = sid2 \<and> t1 = t2)
       \<and> sentIds (snd (step rt cfg (Message sid data ev) s)) \<in> {[], [userMessageId sid (e_id ev)]}"
  using message_id_injective [OF assms] handleMessage_ids by simp

theorem user_message_ids_witness:
  "(0::int) \<le> 1000 \<and> (0::int) \<le> 2000
   \<and> userMessageId ''s1'' 1000 \<noteq> userMessageId ''s1'' 2000
   \<and> userMessageId ''s1'' 1000 \<noteq> userMessageId ''s2'' 1000
   \<and> userMessageId ''s1'' 1000 = ''s1-1000''"
proof -
  have a: "(0::int) \<le> 1000" and b: "(0::int) \<le> 2000" by simp_all
  note T1 = user_message_ids [OF a b, of "''s1''" "''s1''", THEN conjunct1]
  note T2 = user_message_ids [OF a a, of "''s1''" "''s2''", THEN conjunct1]
  have "userMessageId ''s1'' 1000 = ''s1-1000''"
    by (simp add: userMessageId_def showInt_def showNat.simps digit_def)
  with T1 T2 show ?thesis by simp
qed

lemma sample_texts:
  "truthy (textMessage t)" "propOf (textMessage t) ''text'' = JStr t"
  by (simp_all add: textMessage_def propOf_def objectGet_def)

lemma sample_trim: "trim ''hi'' = ''hi''" "trim ''yo'' = ''yo''" "trim ''bad'' = ''bad''"
  "trim ''hello'' = ''hello''"
  by (simp_all add: trim_def isWhitespace_def)

text \<open>
  Two different messages of one connection, both built at clock reading 1000, get the
  same id.
\<close>

theorem same_millisecond_same_id:
  "map m_text (broadcasts
     (snd (runFrom sampleRuntime (defaultConfig\<lparr>ai_enabled := False\<rparr>)
        [Message ''s1'' (textMessage ''hi'') (sampleEnv 1000),
         Message ''s1'' (textMessage ''yo'') (sampleEnv 1000)] namedServer)))
     = [''hi'', ''yo'']
   \<and> map m_id (broadcasts
     (snd (runFrom sampleRuntime (defaultConfig\<lparr>ai_enabled := False\<rparr>)
        [Message ''s1'' (textMessage ''hi'') (sampleEnv 1000),
         Message ''s1'' (textMessage ''yo'') (sampleEnv 1000)] namedServer)))
     = [''s1-1000'', ''s1-1000'']"
proof -
  have i: "userMessageId ''s1'' 1000 = ''s1-1000''"
    by (simp add: userMessageId_def showInt_def showNat.simps digit_def)
  have f: "e_check (sampleEnv 1000) = 1000" "e_id (sampleEnv 1000) = 1000"
    "e_stamp (sampleEnv 1000) = 1000" "e_moderate (sampleEnv 1000) t = Inr okOutcome" for t
    by (simp_all add: sampleEnv_def)
  have st: "stripTags sampleRuntime t = t" for t by (simp add: sampleRuntime_def)
  have l: "rateLimit_messagesPerMinute (defaultConfig\<lparr>ai_enabled := False\<rparr>) = 30"
    by (simp add: defaultConfig_def)
  show ?thesis
    by (simp add: handleMessage_def Let_def namedServer_def initialServer_def sample_texts
        sample_trim st f okOutcome_def i checkRateLimit_def recorded_def l)
qed

theorem blocked_text_never_in_history_witness:
  "truthy (textMessage ''bad'') \<and> propOf (textMessage ''bad'') ''text'' = JStr ''bad''
   \<and> \<not> passes (blockingEnv 2000) (stripTags sampleRuntime (trim ''bad''))
   \<and> conversationHistoryMap (fst (step sampleRuntime defaultConfig
        (Message ''s1'' (textMessage ''bad'') (blockingEnv 2000)) namedServer))
       = conversationHistoryMap namedServer
   \<and> getHistory (conversationHistoryMap (fst (run sampleRuntime (defaultConfig\<lparr>ai_enabled := False\<rparr>)
        [Connect ''s1'', Register ''s1'' (registration ''Ann'') (sampleEnv 1000),
         Message ''s1'' (textMessage ''bad'') (blockingEnv 2000),
         Message ''s1'' (textMessage ''hello'') (blockingEnv 3000)]))) ''s1''
       = [\<lparr> h_author = ''Ann'', h_text = ''hello'', h_timestamp = 3000 \<rparr>]
   \<and> (\<exists>x\<in>set [Connect ''s1'', Register ''s1'' (registration ''Ann'') (sampleEnv 1000),
         Message ''s1'' (textMessage ''bad'') (blockingEnv 2000),
         Message ''s1'' (textMessage ''hello'') (blockingEnv 3000)]. accepts x ''hello'')"
proof -
  let ?cfg = "defaultConfig\<lparr>ai_enabled := False\<rparr>"
  let ?es = "[Connect ''s1'', Register ''s1'' (registration ''Ann'') (sampleEnv 1000),
         Message ''s1'' (textMessage ''bad'') (blockingEnv 2000),
         Message ''s1'' (textMessage ''hello'') (blockingEnv 3000)]"
  have st: "stripTags sampleRuntime t = t" for t by (simp add: sampleRuntime_def)
  have np: "\<not> passes (blockingEnv 2000) (stripTags sampleRuntime (trim ''bad''))"
    by (simp add: st sample_trim passes_def blockingEnv_def)
  have h3: "truthy (textMessage ''bad'') \<and> propOf (textMessage ''bad'') ''text'' = JStr ''bad'' \<and>
      \<not> passes (blockingEnv 2000) (stripTags sampleRuntime (trim ''bad''))"
    using sample_texts np by simp
  note T3 = blocked_text_never_in_history [of sampleRuntime defaultConfig ?es
      "textMessage ''bad''" "blockingEnv 2000" "''s1''" namedServer,
      THEN conjunct2, THEN conjunct2, THEN spec, THEN mp, OF h3]
  have f: "e_check (blockingEnv t) = t" "e_id (blockingEnv t) = t" "e_stamp (blockingEnv t) = t"
    "e_moderate (blockingEnv t) ''hello'' = Inr okOutcome"
    "e_moderate (blockingEnv t) ''bad''
       = Inr \<lparr> isBlocked = True, reason = BlockedModel, details = NoDetails \<rparr>" for t
    by (simp_all add: blockingEnv_def sampleEnv_def)
  have reg: "registerUsername sampleRuntime ?cfg (sampleEnv 1000) ''s1'' (registration ''Ann'') s
      = (s\<lparr>socketUsername := (socketUsername s)(''s1'' \<mapsto> ''Ann'')\<rparr>, [])" for s
    by (simp add: registerUsername_def registration_def propOf_def objectGet_def trim_def
        isWhitespace_def defaultConfig_def Let_def)
  have l: "rateLimit_messagesPerMinute ?cfg = 30" "ai_conversationHistorySize ?cfg = 5"
    by (simp_all add: defaultConfig_def)
  have run: "getHistory (conversationHistoryMap (fst (run sampleRuntime ?cfg ?es))) ''s1''
       = [\<lparr> h_author = ''Ann'', h_text = ''hello'', h_timestamp = 3000 \<rparr>]"
    by (simp add: run_def reg handleMessage_def Let_def initialServer_def sample_texts
        sample_trim st f okOutcome_def checkRateLimit_def recorded_def l
        addToConversationHistory_def getHistory_def entryOf_def)
  then have "\<lparr> h_author = ''Ann'', h_text = ''hello'', h_timestamp = 3000 \<rparr>
      \<in> set (getHistory (conversationHistoryMap (fst (run sampleRuntime ?cfg ?es))) ''s1'')"
    by simp
  from blocked_text_never_in_history [of sampleRuntime ?cfg ?es,
      THEN conjunct1, THEN spec, THEN spec, THEN mp, OF this]
  have T1: "\<exists>x\<in>set ?es. accepts x ''hello''" by simp
  show ?thesis
    using sample_texts [of "''bad''"] np T3 run T1 by simp
qed

section \<open>The history bound over runs\<close>

lemma appended_bounded:
  assumes "0 \<le> ai_conversationHistorySize cfg"
    and "appended cfg ev sid' m m'"
    and "\<forall>sid. int (length (getHistory m sid)) \<le> ai_conversationHistorySize cfg"
  shows "int (length (getHistory m' sid)) \<le> ai_conversationHistorySize cfg"
proof (cases "m' = m")
  case True
  with assms(3) show ?thesis by simp
next
  case False
  with assms(2) obtain md where md: "m' = addToConversationHistory cfg sid' md m"
    by (auto simp: appended_def)
  show ?thesis
  proof (cases "sid = sid'")
    case True
    with md add_length_le [OF assms(1), of m sid' md] assms(3) show ?thesis by simp
  next
    case False
    then have "getHistory m' sid = getHistory m sid"
      by (simp add: md getHistory_def add_other_key)
    with assms(3) show ?thesis by simp
  qed
qed

lemma step_bounded:
  assumes "0 \<le> ai_conversationHistorySize cfg"
    and "\<forall>sid. int (length (getHistory (conversationHistoryMap s) sid))
           \<le> ai_conversationHistorySize cfg"
  shows "int (length (getHistory (conversationHistoryMap (fst (step rt cfg x s))) sid))
           \<le> ai_conversationHistorySize cfg"
proof (cases x)
  case (Connect sid')
  with assms(2) show ?thesis by simp
next
  case (Register sid' data ev)
  with appended_bounded [OF assms(1) register_history assms(2)] show ?thesis by simp
next
  case (Message sid' data ev)
  with appended_bounded [OF assms(1) message_history assms(2)] show ?thesis by simp
next
  case (AITurn sid' um mr b ev)
  with appended_bounded [OF assms(1) aiturn_history assms(2)] show ?thesis by simp
next
  case (Disconnect sid')
  with assms show ?thesis
    by (cases "sid = sid'") (simp_all add: disconnect_def getHistory_def)
qed

lemma runFrom_bounded:
  assumes "0 \<le> ai_conversationHistorySize cfg"
    and "\<forall>sid. int (length (getHistory (conversationHistoryMap s) sid))
           \<le> ai_conversationHistorySize cfg"
  shows "int (length (getHistory (conversationHistoryMap (fst (runFrom rt cfg es s))) sid))
           \<le> ai_conversationHistorySize cfg"
  using assms(2)
proof (induction es arbitrary: s)
  case Nil
  then show ?case by simp
next
  case (Cons x es)
  have "\<forall>sid. int (length (getHistory (conversationHistoryMap (fst (step rt cfg x s))) sid))
           \<le> ai_conversationHistorySize cfg"
    using step_bounded [OF assms(1) Cons.prems] by blast
  from Cons.IH [OF this] show ?case by (simp add: Let_def)
qed

lemma run_bounded:
  assumes "0 \<le> ai_conversationHistorySize cfg"
  shows "int (length (getHistory (conversationHistoryMap (fst (run rt cfg es))) sid))
           \<le> ai_conversationHistorySize cfg"
  unfolding run_def
  by (rule runFrom_bounded [OF assms]) (simp add: initialServer_def getHistory_def assms)

text \<open>
  C7. With a history size \<open>N \<ge> 0\<close>, a history of at most \<open>N\<close> entries stays at most
  \<open>N\<close> entries long under any sequence of appends and then holds exactly the last
  \<open>N\<close> of everything appended, oldest first; a single append to a full history drops
  exactly the oldest entry; starting from no history, \<open>N + 1\<close> appends leave the last
  \<open>N\<close> messages; other connections' histories are untouched. After any run of events
  from the initial state, no connection's history is longer than \<open>N\<close>.
\<close>

theorem history_bounded_fifo:
  assumes "0 \<le> ai_conversationHistorySize cfg"
    and "int (length (getHistory m sid)) \<le> ai_conversationHistorySize cfg"
  shows "int (length (getHistory (addAllToHistory cfg sid mds m) sid))
           \<le> ai_conversationHistorySize cfg
       \<and> getHistory (addAllToHistory cfg sid mds m) sid =
           drop (length (getHistory m sid) + length mds - nat (ai_conversationHistorySize cfg))
             (getHistory m sid @ map entryOf mds)
       \<and> (int (length (getHistory m sid)) = ai_conversationHistorySize cfg \<longrightarrow>
           getHistory (addToConversationHistory cfg sid md m) sid =
             tl (getHistory m sid @ [entryOf md]))
       \<and> (int (length mds) = ai_conversationHistorySize cfg + 1 \<longrightarrow>
           getHistory (addAllToHistory cfg sid mds Map.empty) sid = tl (map entryOf mds))
       \<and> (\<forall>sid'. sid' \<noteq> sid \<longrightarrow> addAllToHistory cfg sid mds m sid' = m sid')
       \<and> (\<forall>sid'. int (length (getHistory (conversationHistoryMap (fst (run rt cfg es))) sid'))
             \<le> ai_conversationHistorySize cfg)"
proof -
  have e: "int (length (getHistory Map.empty sid)) \<le> ai_conversationHistorySize cfg"
    using assms(1) by (simp add: getHistory_def)
  have full: "getHistory (addToConversationHistory cfg sid md m) sid
                = tl (getHistory m sid @ [entryOf md])"
    if "int (length (getHistory m sid)) = ai_conversationHistorySize cfg"
    using that by (simp add: getHistory_add_same Let_def)
  have fresh: "getHistory (addAllToHistory cfg sid mds Map.empty) sid = tl (map entryOf mds)"
    if "int (length mds) = ai_conversationHistorySize cfg + 1"
  proof -
    have "length mds - nat (ai_conversationHistorySize cfg) = 1"
      using that assms(1) by linarith
    then show ?thesis
      using addAll_keeps_last [OF assms(1) e, of mds]
      by (simp add: getHistory_def drop_Suc)
  qed
  show ?thesis
    using addAll_keeps_last [OF assms] full fresh addAll_other_key run_bounded [OF assms(1)]
    by blast
qed

theorem history_bounded_fifo_witness:
  "0 \<le> ai_conversationHistorySize (defaultConfig\<lparr>ai_conversationHistorySize := 2\<rparr>)
   \<and> int (length (getHistory Map.empty ''s1''))
        \<le> ai_conversationHistorySize (defaultConfig\<lparr>ai_conversationHistorySize := 2\<rparr>)
   \<and> getHistory
        (addAllToHistory (defaultConfig\<lparr>ai_conversationHistorySize := 2\<rparr>) ''s1''
          [sampleMessage ''a'' 1, sampleMessage ''b'' 2, sampleMessage ''c'' 3] Map.empty) ''s1''
       = [entryOf (sampleMessage ''b'' 2), entryOf (sampleMessage ''c'' 3)]"
  using history_bounded_fifo [of "defaultConfig\<lparr>ai_conversationHistorySize := 2\<rparr>"
      Map.empty "''s1''" "[sampleMessage ''a'' 1, sampleMessage ''b'' 2, sampleMessage ''c'' 3]"
      "sampleMessage ''a'' 1"]
  by (simp add: getHistory_def)

end
